theory Spec2Isabelle
  imports Main "HOL-Library.Word"
begin

section \<open>A static-file HTTP/1.0 server: the request handler of \<open>server.c\<close>\<close>

text \<open>
  The theory embeds the request-handling pipeline of \<open>src/server.c\<close>:
  \<open>send_response\<close>, \<open>send_error\<close>, \<open>read_file\<close>, \<open>get_content_type\<close> and
  \<open>handle_client\<close>.  A C string is a \<open>string\<close> (a list of 8-bit characters) that holds the
  bytes before the terminating NUL.  The operating system (the socket, the file system,
  the allocator) is a record of functions that the handler consults; what the handler does
  to the connection is a record that is passed along and returned.  \<open>long\<close> and
  \<open>size_t\<close> are 64-bit words (LP64, as on Linux x86-64).
\<close>

subsection \<open>The C library on strings\<close>

definition NUL :: char where
  "NUL = CHR 0x00"

definition CRLF :: string where
  "CRLF = [CHR 0x0D, CHR 0x0A]"

text \<open>\<open>isspace\<close> in the C locale: blank, \<open>\t\<close>, \<open>\n\<close>, \<open>\v\<close>, \<open>\f\<close>, \<open>\r\<close>.\<close>

definition isspace :: "char \<Rightarrow> bool" where
  "isspace c = (c = CHR 0x20 \<or> c = CHR 0x09 \<or> c = CHR 0x0A \<or> c = CHR 0x0B \<or> c = CHR 0x0C \<or> c = CHR 0x0D)"

text \<open>The C string held by a byte buffer: the bytes before the first NUL.\<close>

definition c_str :: "string \<Rightarrow> string" where
  "c_str buf = takeWhile (\<lambda>c. c \<noteq> NUL) buf"

text \<open>\<open>strchr\<close> returns the suffix that starts at the first occurrence, \<open>strrchr\<close> the
  suffix that starts at the last one; \<open>None\<close> is the null pointer.\<close>

fun strchr :: "string \<Rightarrow> char \<Rightarrow> string option" where
  "strchr [] c = None"
| "strchr (x # xs) c = (if x = c then Some (x # xs) else strchr xs c)"

fun strrchr :: "string \<Rightarrow> char \<Rightarrow> string option" where
  "strrchr [] c = None"
| "strrchr (x # xs) c =
     (case strrchr xs c of
        Some r \<Rightarrow> Some r
      | None \<Rightarrow> if x = c then Some (x # xs) else None)"

text \<open>\<open>strstr\<close>: the suffix that starts at the first occurrence of the needle.\<close>

fun strstr :: "string \<Rightarrow> string \<Rightarrow> string option" where
  "strstr [] needle = (if needle = [] then Some [] else None)"
| "strstr (x # xs) needle =
     (if take (length needle) (x # xs) = needle then Some (x # xs) else strstr xs needle)"

text \<open>\<open>strncmp a b n == 0\<close> on NUL-terminated strings: the first \<open>n\<close> bytes agree.\<close>

definition strncmp_eq :: "string \<Rightarrow> string \<Rightarrow> nat \<Rightarrow> bool" where
  "strncmp_eq a b n = (take n a = take n b)"

text \<open>\<open>snprintf\<close> into a buffer of \<open>n\<close> bytes keeps at most \<open>n - 1\<close> bytes of the formatted
  text and returns the length of the whole formatted text.\<close>

definition snprintf :: "nat \<Rightarrow> string \<Rightarrow> string \<times> int" where
  "snprintf n s = (take (n - 1) s, int (length s))"

text \<open>Decimal output of \<open>%d\<close> and \<open>%ld\<close>.\<close>

fun dec :: "nat \<Rightarrow> string" where
  "dec n = (if n < 10 then [''0123456789'' ! n] else dec (n div 10) @ [''0123456789'' ! (n mod 10)])"

declare dec.simps [simp del]

definition show_int :: "int \<Rightarrow> string" where
  "show_int i = (if i < 0 then CHR ''-'' # dec (nat (- i)) else dec (nat i))"

subsection \<open>Content types\<close>

definition get_content_type :: "string \<Rightarrow> string" where
  "get_content_type path =
     (case strrchr path (CHR ''.'') of
        None \<Rightarrow> ''text/plain''
      | Some ext \<Rightarrow>
          if ext = ''.html'' then ''text/html''
          else if ext = ''.jpg'' \<or> ext = ''.jpeg'' then ''image/jpeg''
          else if ext = ''.png'' then ''image/png''
          else if ext = ''.css'' then ''text/css''
          else if ext = ''.js'' then ''application/javascript''
          else ''application/octet-stream'')"

subsection \<open>The environment and the connection\<close>

type_synonym long = "64 word"
type_synonym size_t = "64 word"

definition MAXDATASIZE :: nat where
  "MAXDATASIZE = 4096"

text \<open>\<open>PATH_MAX\<close> comes from \<open>limits.h\<close>; on Linux it is 4096.\<close>

definition PATH_MAX :: nat where
  "PATH_MAX = 4096"

text \<open>An open file: the offset \<open>ftell\<close> reports after \<open>fseek(file, 0, SEEK_END)\<close>, and the
  bytes \<open>fread\<close> can deliver from the start of the file.  The two differ when the file
  changes between the two calls.\<close>

record file_handle =
  fend :: long
  fdata :: string

text \<open>What the operating system answers:
  \<^item> \<open>incoming\<close>: the bytes waiting on the socket (\<open>None\<close>: \<open>recv\<close> fails with -1);
  \<^item> \<open>realpath_of\<close>: \<open>realpath\<close>, \<open>None\<close> for the null pointer;
  \<^item> \<open>fopen_of\<close>: \<open>fopen(path, "rb")\<close>;
  \<^item> \<open>malloc_ok\<close>: whether \<open>malloc\<close> of that many bytes succeeds;
  \<^item> \<open>send_ret\<close>: the value the \<open>k\<close>-th call of \<open>send\<close> (counted from 0) returns for
    the bytes it is handed;
  \<^item> \<open>uninitialised\<close>: what the stack buffer \<open>real_root\<close> holds when \<open>realpath\<close> did not
    write it.\<close>

record env =
  incoming :: "string option"
  realpath_of :: "string \<Rightarrow> string option"
  fopen_of :: "string \<Rightarrow> file_handle option"
  malloc_ok :: "size_t \<Rightarrow> bool"
  send_ret :: "nat \<Rightarrow> string \<Rightarrow> int"
  uninitialised :: string

text \<open>What the handler has done: the buffers handed to \<open>send\<close> (oldest first), whether
  the socket is closed, and the number of \<open>malloc\<close>ed buffers not yet freed.\<close>

record state =
  sent :: "string list"
  closed :: bool
  allocated :: nat

definition start :: state where
  "start = \<lparr>sent = [], closed = False, allocated = 0\<rparr>"

text \<open>\<open>realpath(path, buf)\<close> with the result ignored: what \<open>buf\<close> holds afterwards.\<close>

definition realpath_into :: "env \<Rightarrow> string \<Rightarrow> string \<Rightarrow> string" where
  "realpath_into e path buf = (case realpath_of e path of None \<Rightarrow> buf | Some r \<Rightarrow> r)"

definition recv :: "env \<Rightarrow> nat \<Rightarrow> int \<times> string" where
  "recv e len =
     (case incoming e of
        None \<Rightarrow> (- 1, [])
      | Some bytes \<Rightarrow> (int (length (take len bytes)), take len bytes))"

definition send :: "env \<Rightarrow> state \<Rightarrow> string \<Rightarrow> state \<times> int" where
  "send e s bytes = (s\<lparr>sent := sent s @ [bytes]\<rparr>, send_ret e (length (sent s)) bytes)"

definition close :: "state \<Rightarrow> state" where
  "close s = s\<lparr>closed := True\<rparr>"

definition free :: "state \<Rightarrow> state" where
  "free s = s\<lparr>allocated := allocated s - 1\<rparr>"

subsection \<open>Responses\<close>

definition send_response :: "env \<Rightarrow> state \<Rightarrow> int \<Rightarrow> string \<Rightarrow> string \<Rightarrow> string option \<Rightarrow> state" where
  "send_response e s status_code status_text content_type body =
     (let body_len = (case body of None \<Rightarrow> 0 | Some b \<Rightarrow> int (length b));
          (header, header_len) =
             snprintf 512
               (''HTTP/1.0 '' @ show_int status_code @ '' '' @ status_text @ CRLF @
                ''Content-Type: '' @ content_type @ CRLF @
                ''Content-Length: '' @ show_int body_len @ CRLF @
                CRLF);
          (s1, _) = send e s (take (nat header_len) header)
      in case body of
           None \<Rightarrow> s1
         | Some b \<Rightarrow> if body_len > 0 then fst (send e s1 (take (nat body_len) b)) else s1)"

definition send_error :: "env \<Rightarrow> state \<Rightarrow> int \<Rightarrow> string \<Rightarrow> state" where
  "send_error e s code message =
     (let body = fst (snprintf 256 (''{'' @ [CHR 0x22] @ ''error'' @ [CHR 0x22] @ '': '' @
                                    [CHR 0x22] @ message @ [CHR 0x22] @ ''}''))
      in if code = 400 then send_response e s 400 ''Bad Request'' ''application/json'' (Some body)
         else if code = 403 then send_response e s 403 ''Forbidden'' ''application/json'' (Some body)
         else if code = 404 then send_response e s 404 ''Not Found'' ''application/json'' (Some body)
         else if code = 500 then
           send_response e s 500 ''Internal Server Error'' ''application/json'' (Some body)
         else send_response e s code ''Error'' ''application/json'' (Some body))"

subsection \<open>Loading a file\<close>

text \<open>\<open>fread(buffer, 1, size, file)\<close> delivers at most \<open>size\<close> bytes (\<open>size\<close> read as
  \<open>size_t\<close>).\<close>

definition fread :: "file_handle \<Rightarrow> size_t \<Rightarrow> string" where
  "fread f n = take (unat n) (fdata f)"

definition read_file :: "env \<Rightarrow> state \<Rightarrow> string \<Rightarrow> (string \<times> long) option \<times> state" where
  "read_file e s file_path =
     (case fopen_of e file_path of
        None \<Rightarrow> (None, s)
      | Some f \<Rightarrow>
          let size = fend f
          in if \<not> malloc_ok e (size + 1) then (None, s)
             else
               let s1 = s\<lparr>allocated := allocated s + 1\<rparr>;
                   buffer = fread f size;
                   bytes_read = (word_of_nat (length buffer) :: size_t)
               in if bytes_read \<noteq> size then (None, free s1)
                  else (Some (buffer, size), s1))"

subsection \<open>Parsing the request line\<close>

text \<open>One \<open>%Ns\<close> directive of \<open>sscanf\<close>: skip white space, fail at the end of the input,
  otherwise store the longest run of at most \<open>N\<close> bytes that are not white space and
  continue behind it.  The blanks between the directives of the format skip white space,
  which the next directive does anyway.\<close>

definition scan_s :: "nat \<Rightarrow> string \<Rightarrow> (string \<times> string) option" where
  "scan_s w s =
     (let s1 = dropWhile isspace s
      in if s1 = [] then None
         else let tok = take w (takeWhile (\<lambda>c. \<not> isspace c) s1)
              in Some (tok, drop (length tok) s1))"

text \<open>\<open>sscanf(buf, "%7s %255s %15s", method, path, protocol)\<close>: the number of fields
  stored (\<open>EOF = -1\<close> when the input ends before the first), and the fields.\<close>

definition sscanf_request :: "string \<Rightarrow> int \<times> string \<times> string \<times> string" where
  "sscanf_request buf =
     (case scan_s 7 buf of
        None \<Rightarrow> (- 1, [], [], [])
      | Some (method, r1) \<Rightarrow>
          (case scan_s 255 r1 of
             None \<Rightarrow> (1, method, [], [])
           | Some (path, r2) \<Rightarrow>
               (case scan_s 15 r2 of
                  None \<Rightarrow> (2, method, path, [])
                | Some (protocol, r3) \<Rightarrow> (3, method, path, protocol))))"

text \<open>\<open>char *p = strchr(s, c); if (p) *p = '\0';\<close> keeps the bytes in front of \<open>p\<close>.\<close>

definition cut_at :: "string \<Rightarrow> char \<Rightarrow> string" where
  "cut_at s c = (case strchr s c of None \<Rightarrow> s | Some p \<Rightarrow> take (length s - length p) s)"

subsection \<open>Handling one connection\<close>

definition handle_client :: "env \<Rightarrow> string \<Rightarrow> state" where
  "handle_client e root_dir =
     (let s0 = start;
          (numbytes, buf0) = recv e (MAXDATASIZE - 1)
      in if numbytes \<le> 0 then close s0
         else
           let buf = c_str (take (nat numbytes) buf0);
               (n, method, path0, protocol) = sscanf_request buf
           in if n \<noteq> 3 then close (send_error e s0 400 ''Malformed request'')
              else
                let path1 = cut_at path0 (CHR ''?'');
                    path = cut_at path1 (CHR ''#'')
                in if strstr path ''..'' \<noteq> None
                   then close (send_error e s0 403 ''Forbidden path traversal'')
                   else if method \<noteq> ''GET''
                   then close (send_error e s0 501 ''Only GET is supported'')
                   else
                     let requested_path =
                           fst (snprintf PATH_MAX
                                  (if path = ''/'' then root_dir @ ''/index.html''
                                   else root_dir @ path))
                     in case realpath_of e requested_path of
                          None \<Rightarrow> close (send_error e s0 404 ''File not found'')
                        | Some real_requested_path \<Rightarrow>
                            let real_root = realpath_into e root_dir (uninitialised e)
                            in if \<not> strncmp_eq real_requested_path real_root (length real_root)
                               then close (send_error e s0 403 ''Forbidden path'')
                               else
                                 case read_file e s0 real_requested_path of
                                   (None, s1) \<Rightarrow> close (send_error e s1 404 ''File not found'')
                                 | (Some (body, file_size), s1) \<Rightarrow>
                                     let content_type = get_content_type real_requested_path;
                                         (header, header_len) =
                                            snprintf 512
                                              (''HTTP/1.0 200 OK'' @ CRLF @
                                               ''Content-Type: '' @ content_type @ CRLF @
                                               ''Content-Length: '' @ show_int (sint file_size) @ CRLF @
                                               CRLF);
                                         (s2, _) = send e s1 (take (nat header_len) header);
                                         (s3, sent_ret) = send e s2 (take (unat file_size) body);
                                         s4 = (if sent_ret = - 1
                                               then send_error e s3 500 ''Failed to send response body''
                                               else s3)
                                     in close (free s4))"

section \<open>The specification's vocabulary\<close>

text \<open>The wire format of a response: status line, \<open>Content-Type\<close>, \<open>Content-Length\<close>,
  an empty line; the body follows.\<close>

definition response_head :: "int \<Rightarrow> string \<Rightarrow> string \<Rightarrow> nat \<Rightarrow> string" where
  "response_head code reason ctype n =
     ''HTTP/1.0 '' @ show_int code @ '' '' @ reason @ CRLF @
     ''Content-Type: '' @ ctype @ CRLF @
     ''Content-Length: '' @ show_int (int n) @ CRLF @
     CRLF"

text \<open>The JSON body of an error response and the status texts of the error codes.\<close>

definition error_body :: "string \<Rightarrow> string" where
  "error_body message = ''{\"error\": \"'' @ message @ ''\"}''"

definition reason_phrase :: "int \<Rightarrow> string" where
  "reason_phrase code =
     (if code = 400 then ''Bad Request''
      else if code = 403 then ''Forbidden''
      else if code = 404 then ''Not Found''
      else if code = 500 then ''Internal Server Error''
      else ''Error'')"

text \<open>An error response as the two buffers handed to \<open>send\<close>: the head and the body.\<close>

definition error_response :: "int \<Rightarrow> string \<Rightarrow> string list" where
  "error_response code message =
     [response_head code (reason_phrase code) ''application/json'' (length (error_body message)),
      error_body message]"

text \<open>A response of the data model and the buffers that carry it.\<close>

record response =
  resp_status :: int
  resp_text :: string
  resp_type :: string
  resp_body :: string

definition wire :: "response \<Rightarrow> string list" where
  "wire r =
     [response_head (resp_status r) (resp_text r) (resp_type r) (length (resp_body r)),
      resp_body r]"

text \<open>A header field without a line break, and a file system whose files are shorter than
  \<open>2^63\<close> bytes (a file offset is a signed 64-bit number).\<close>

definition one_line :: "string \<Rightarrow> bool" where
  "one_line s = (CHR 0x0D \<notin> set s \<and> CHR 0x0A \<notin> set s)"

definition files_fit :: "env \<Rightarrow> bool" where
  "files_fit e = (\<forall>p f. fopen_of e p = Some f \<longrightarrow> length (fdata f) < 2 ^ 63)"

text \<open>The target without its query string and fragment: everything in front of the
  first \<open>?\<close> or \<open>#\<close>.\<close>

definition strip_query :: "string \<Rightarrow> string" where
  "strip_query target = takeWhile (\<lambda>c. c \<noteq> CHR ''?'' \<and> c \<noteq> CHR ''#'') target"

text \<open>The text of the received buffer: of the at most \<open>MAXDATASIZE - 1\<close> bytes that
  \<open>recv\<close> delivers, those in front of the first NUL.\<close>

definition received_text :: "env \<Rightarrow> string" where
  "received_text e =
     (case incoming e of None \<Rightarrow> [] | Some bytes \<Rightarrow> c_str (take (MAXDATASIZE - 1) bytes))"

text \<open>The request the handler works on: \<open>recv\<close> delivered bytes and the scan stored
  three fields, the method, the target and the protocol.\<close>

definition request_of :: "env \<Rightarrow> (string \<times> string \<times> string) option" where
  "request_of e =
     (case incoming e of
        None \<Rightarrow> None
      | Some bytes \<Rightarrow>
          if bytes = [] then None
          else (case sscanf_request (c_str (take (MAXDATASIZE - 1) bytes)) of
                  (n, method, target, protocol) \<Rightarrow>
                    if n = 3 then Some (method, target, protocol) else None))"

text \<open>The candidate path of a target: \<open>/\<close> stands for \<open>/index.html\<close>, every other
  target is appended to the root directory (in a buffer of \<open>PATH_MAX\<close> bytes).\<close>

definition candidate :: "string \<Rightarrow> string \<Rightarrow> string" where
  "candidate root_dir target =
     fst (snprintf PATH_MAX
            (if strip_query target = ''/'' then root_dir @ ''/index.html''
             else root_dir @ strip_query target))"

text \<open>The containment check: the canonical root directory is a prefix of the path.\<close>

definition root_prefix :: "env \<Rightarrow> string \<Rightarrow> string \<Rightarrow> bool" where
  "root_prefix e root_dir p =
     (let real_root = realpath_into e root_dir (uninitialised e)
      in take (length real_root) p = real_root)"

text \<open>Loading succeeds: the file opens, the buffer is allocated and the file delivers as
  many bytes as \<open>ftell\<close> announced.  Loading fails: the file does not open, the buffer
  is not allocated, or fewer bytes are read than announced.\<close>

definition loads :: "env \<Rightarrow> string \<Rightarrow> file_handle \<Rightarrow> bool" where
  "loads e p f =
     (fopen_of e p = Some f \<and> malloc_ok e (fend f + 1) \<and> unat (fend f) \<le> length (fdata f))"

definition load_fails :: "env \<Rightarrow> string \<Rightarrow> bool" where
  "load_fails e p =
     (case fopen_of e p of
        None \<Rightarrow> True
      | Some f \<Rightarrow> \<not> malloc_ok e (fend f + 1) \<or> length (fdata f) < unat (fend f))"

text \<open>A path strictly below a directory: the directory's path, a separator, and at
  least one more byte.\<close>

definition strict_descendant :: "string \<Rightarrow> string \<Rightarrow> bool" where
  "strict_descendant root p =
     (let r = (if root \<noteq> [] \<and> last root = CHR ''/'' then root else root @ ''/'')
      in take (length r) p = r \<and> length r < length p)"

text \<open>The white-space separated tokens of a text, and its first line.\<close>

function ws_tokens :: "string \<Rightarrow> string list" where
  "ws_tokens s =
     (if dropWhile isspace s = [] then []
      else takeWhile (\<lambda>c. \<not> isspace c) (dropWhile isspace s) #
           ws_tokens (dropWhile (\<lambda>c. \<not> isspace c) (dropWhile isspace s)))"
  by pat_completeness auto

termination ws_tokens
proof (relation "measure length")
  show "wf (measure length)" by simp
next
  fix s :: string
  assume ne: "dropWhile isspace s \<noteq> []"
  then obtain x xs where s1: "dropWhile isspace s = x # xs" by (cases "dropWhile isspace s") auto
  then have "\<not> isspace x" by (metis hd_dropWhile list.sel(1) ne)
  then have "length (dropWhile (\<lambda>c. \<not> isspace c) (x # xs)) \<le> length xs"
    by (simp add: length_dropWhile_le)
  moreover have "length (x # xs) \<le> length s"
    by (metis s1 length_dropWhile_le)
  ultimately show "(dropWhile (\<lambda>c. \<not> isspace c) (dropWhile isspace s), s) \<in> measure length"
    by (simp add: s1)
qed

declare ws_tokens.simps [simp del]

definition first_line :: "string \<Rightarrow> string" where
  "first_line s = takeWhile (\<lambda>c. c \<noteq> CHR 0x0D \<and> c \<noteq> CHR 0x0A) s"

text \<open>The first token fits the method field and the second the target field.\<close>

fun fields_fit :: "string list \<Rightarrow> bool" where
  "fields_fit [] = True"
| "fields_fit [m] = (length m \<le> 7)"
| "fields_fit (m # t # ts) = (length m \<le> 7 \<and> length t \<le> 255)"

section \<open>An example site\<close>

text \<open>The root directory \<open>/var/www\<close> holds \<open>index.html\<close>, \<open>style.css\<close> (which shrinks
  while it is read), and the symbolic link \<open>passwd\<close> to \<open>/etc/passwd\<close>; beside it lies the
  directory \<open>/var/www-private\<close>.  Every \<open>send\<close> transmits all its bytes.\<close>

definition www :: "string \<Rightarrow> env" where
  "www request =
     \<lparr>incoming = Some request,
      realpath_of = (\<lambda>p.
         if p = ''/var/www'' \<or> p = ''/var/www/index.html'' \<or> p = ''/var/www/style.css'' \<or>
            p = ''/var/www-private/secret.txt'' then Some p
         else if p = ''/var/www/passwd'' then Some ''/etc/passwd''
         else None),
      fopen_of = (\<lambda>p.
         if p = ''/var/www/index.html'' then Some \<lparr>fend = 13, fdata = ''Hello World!'' @ [CHR 0x0A]\<rparr>
         else if p = ''/var/www/style.css'' then Some \<lparr>fend = 20, fdata = ''body {}''\<rparr>
         else if p = ''/var/www-private/secret.txt'' then Some \<lparr>fend = 6, fdata = ''secret''\<rparr>
         else None),
      malloc_ok = (\<lambda>n. True),
      send_ret = (\<lambda>k bytes. int (length bytes)),
      uninitialised = []\<rparr>"

text \<open>The same site on a connection whose second \<open>send\<close> fails, and on one whose first
  \<open>send\<close> fails and whose second transmits one byte only.\<close>

definition body_send_fails :: "nat \<Rightarrow> string \<Rightarrow> int" where
  "body_send_fails k bytes = (if k = 1 then - 1 else int (length bytes))"

definition head_send_fails :: "nat \<Rightarrow> string \<Rightarrow> int" where
  "head_send_fails k bytes = (if k = 0 then - 1 else if k = 1 then 1 else int (length bytes))"

definition www_send :: "(nat \<Rightarrow> string \<Rightarrow> int) \<Rightarrow> string \<Rightarrow> env" where
  "www_send results request = (www request)\<lparr>send_ret := results\<rparr>"

definition long_target :: string where
  "long_target = CHR ''/'' # replicate 299 (CHR ''a'')"

section \<open>Properties\<close>

subsection \<open>Decimal numbers and response heads\<close>

lemma length_dec: "0 < k \<Longrightarrow> n < 10 ^ k \<Longrightarrow> length (dec n) \<le> k"
proof (induction n arbitrary: k rule: dec.induct)
  case (1 n)
  show ?case
  proof (cases "n < 10")
    case True
    with 1 show ?thesis by (simp add: dec.simps [of n])
  next
    case False
    then obtain j where k: "k = Suc j" using "1.prems" by (cases k) auto
    from False "1.prems" k have "0 < j" by (cases j) auto
    moreover from "1.prems" k have "n div 10 < 10 ^ j"
      by (simp add: less_mult_imp_div_less mult.commute)
    ultimately have "length (dec (n div 10)) \<le> j" using "1.IH" False by simp
    with False k show ?thesis by (simp add: dec.simps [of n])
  qed
qed

lemma length_show_int: "0 \<le> i \<Longrightarrow> i < 10 ^ k \<Longrightarrow> 0 < k \<Longrightarrow> length (show_int i) \<le> k"
  apply (simp add: show_int_def)
  apply (rule length_dec)
   apply simp
  apply (metis nat_less_iff of_nat_numeral of_nat_power)
  done

lemma length_reason_phrase: "length (reason_phrase code) \<le> 21"
  by (simp add: reason_phrase_def)

lemma send_response_Some:
  assumes "length (response_head code reason ctype (length b)) \<le> 511" and "b \<noteq> []"
  shows "send_response e s code reason ctype (Some b) =
           s\<lparr>sent := sent s @ [response_head code reason ctype (length b), b]\<rparr>"
  using assms
  by (simp add: send_response_def snprintf_def send_def response_head_def Let_def)

lemma send_error_eq:
  assumes "0 \<le> code" and "code < 1000" and "length message \<le> 242"
  shows "send_error e s code message = s\<lparr>sent := sent s @ error_response code message\<rparr>"
proof -
  have body: "fst (snprintf 256 (''{'' @ [CHR 0x22] @ ''error'' @ [CHR 0x22] @ '': '' @
                                    [CHR 0x22] @ message @ [CHR 0x22] @ ''}'')) = error_body message"
    using assms(3) by (simp add: snprintf_def error_body_def)
  have lb: "length (error_body message) \<le> 255" "error_body message \<noteq> []"
    using assms(3) by (simp_all add: error_body_def)
  have l1: "length (show_int code) \<le> 3"
    using assms by (intro length_show_int) simp_all
  have l2: "length (show_int (int (length (error_body message)))) \<le> 3"
    using lb by (intro length_show_int) simp_all
  have fits: "length (response_head code (reason_phrase code) ''application/json''
                 (length (error_body message))) \<le> 511"
    using l1 l2 length_reason_phrase [of code] by (simp add: response_head_def CRLF_def)
  have "send_error e s code message =
          send_response e s code (reason_phrase code) ''application/json'' (Some (error_body message))"
    unfolding send_error_def body by (simp add: reason_phrase_def)
  then show ?thesis
    using send_response_Some [OF fits lb(2)] by (simp add: error_response_def)
qed

text \<open>The five error responses of the handler, byte for byte.\<close>

lemma response_400:
  "error_response 400 ''Malformed request'' =
     [''HTTP/1.0 400 Bad Request'' @ CRLF @ ''Content-Type: application/json'' @ CRLF @
      ''Content-Length: 30'' @ CRLF @ CRLF,
      ''{\"error\": \"Malformed request\"}'']"
  by code_simp

lemma response_403_traversal:
  "error_response 403 ''Forbidden path traversal'' =
     [''HTTP/1.0 403 Forbidden'' @ CRLF @ ''Content-Type: application/json'' @ CRLF @
      ''Content-Length: 37'' @ CRLF @ CRLF,
      ''{\"error\": \"Forbidden path traversal\"}'']"
  by code_simp

lemma response_403_path:
  "error_response 403 ''Forbidden path'' =
     [''HTTP/1.0 403 Forbidden'' @ CRLF @ ''Content-Type: application/json'' @ CRLF @
      ''Content-Length: 27'' @ CRLF @ CRLF,
      ''{\"error\": \"Forbidden path\"}'']"
  by code_simp

lemma response_404:
  "error_response 404 ''File not found'' =
     [''HTTP/1.0 404 Not Found'' @ CRLF @ ''Content-Type: application/json'' @ CRLF @
      ''Content-Length: 27'' @ CRLF @ CRLF,
      ''{\"error\": \"File not found\"}'']"
  by code_simp

lemma response_500:
  "error_response 500 ''Failed to send response body'' =
     [''HTTP/1.0 500 Internal Server Error'' @ CRLF @ ''Content-Type: application/json'' @ CRLF @
      ''Content-Length: 41'' @ CRLF @ CRLF,
      ''{\"error\": \"Failed to send response body\"}'']"
  by code_simp

lemma response_501:
  "error_response 501 ''Only GET is supported'' =
     [''HTTP/1.0 501 Error'' @ CRLF @ ''Content-Type: application/json'' @ CRLF @
      ''Content-Length: 34'' @ CRLF @ CRLF,
      ''{\"error\": \"Only GET is supported\"}'']"
  by code_simp

subsection \<open>String functions\<close>

lemma strchr_Some: "strchr s c = Some p \<Longrightarrow> s = takeWhile (\<lambda>x. x \<noteq> c) s @ p"
  by (induction s) (auto split: if_splits)

lemma strchr_None: "strchr s c = None \<Longrightarrow> takeWhile (\<lambda>x. x \<noteq> c) s = s"
  by (induction s) (auto split: if_splits)

lemma cut_at_takeWhile: "cut_at s c = takeWhile (\<lambda>x. x \<noteq> c) s"
proof (cases "strchr s c")
  case None
  then show ?thesis by (simp add: cut_at_def strchr_None)
next
  case (Some p)
  from strchr_Some [OF Some] have "length s = length (takeWhile (\<lambda>x. x \<noteq> c) s) + length p"
    by (metis length_append)
  moreover have "take (length (takeWhile (\<lambda>x. x \<noteq> c) s)) s = takeWhile (\<lambda>x. x \<noteq> c) s"
    by (metis strchr_Some [OF Some] append_eq_conv_conj)
  ultimately show ?thesis using Some by (simp add: cut_at_def)
qed

lemma cut_at_twice: "cut_at (cut_at t (CHR ''?'')) (CHR ''#'') = strip_query t"
  unfolding cut_at_takeWhile strip_query_def
  by (induction t) auto

text \<open>\<open>strstr\<close> finds the needle exactly when the text contains it.\<close>

lemma strstr_None: "strstr s n = None \<longleftrightarrow> (\<forall>a b. s \<noteq> a @ n @ b)"
proof (induction s)
  case Nil
  show ?case by auto
next
  case (Cons x xs)
  show ?case
  proof (cases "take (length n) (x # xs) = n")
    case True
    then have "x # xs = [] @ n @ drop (length n) (x # xs)"
      by (metis append_Nil append_take_drop_id)
    with True show ?thesis by (metis strstr.simps(2) option.distinct(1))
  next
    case False
    have "(\<forall>a b. x # xs \<noteq> a @ n @ b) \<longleftrightarrow> (\<forall>a b. xs \<noteq> a @ n @ b)"
    proof
      assume h: "\<forall>a b. x # xs \<noteq> a @ n @ b"
      show "\<forall>a b. xs \<noteq> a @ n @ b"
      proof (intro allI notI)
        fix a b assume "xs = a @ n @ b"
        then have "x # xs = (x # a) @ n @ b" by simp
        with h show False by blast
      qed
    next
      assume h: "\<forall>a b. xs \<noteq> a @ n @ b"
      show "\<forall>a b. x # xs \<noteq> a @ n @ b"
      proof (intro allI notI)
        fix a b assume eq: "x # xs = a @ n @ b"
        show False
        proof (cases a)
          case Nil
          with eq have "take (length n) (x # xs) = n" by simp
          with False show False by simp
        next
          case (Cons y ys)
          with eq have "xs = ys @ n @ b" by simp
          with h show False by blast
        qed
      qed
    qed
    with False Cons.IH show ?thesis by simp
  qed
qed

subsection \<open>Loading files\<close>

lemma sint_small:
  assumes "unat (w :: 64 word) < 2 ^ 63"
  shows "sint w = int (unat w)"
proof -
  have u: "uint w = int (unat w)" by simp
  from assms have lt: "uint w < 2 ^ 63" unfolding u by (metis of_nat_less_iff of_nat_numeral of_nat_power)
  have "sint w = signed_take_bit 63 (uint w)" by (simp add: sint_uint)
  also have "\<dots> = uint w"
  proof (rule signed_take_bit_int_eq_self)
    have "(- (2 ^ 63) :: int) \<le> 0" by simp
    also have "0 \<le> uint w" by simp
    finally show "- (2 ^ 63) \<le> uint w" .
    show "uint w < 2 ^ 63" by (rule lt)
  qed
  finally show ?thesis by simp
qed

lemma read_file_loads:
  assumes "loads e p f"
  shows "read_file e s p =
           (Some (take (unat (fend f)) (fdata f), fend f), s\<lparr>allocated := allocated s + 1\<rparr>)"
proof -
  from assms have f: "fopen_of e p = Some f" "malloc_ok e (fend f + 1)"
    and le: "unat (fend f) \<le> length (fdata f)"
    by (simp_all add: loads_def)
  from le have "length (take (unat (fend f)) (fdata f)) = unat (fend f)" by simp
  then have "(word_of_nat (length (take (unat (fend f)) (fdata f))) :: 64 word) = fend f"
    by simp
  with f show ?thesis
    by (simp add: read_file_def fread_def Let_def)
qed

lemma read_file_fails:
  assumes "load_fails e p"
  shows "read_file e s p = (None, s)"
proof (cases "fopen_of e p")
  case None
  then show ?thesis by (simp add: read_file_def)
next
  case (Some f)
  show ?thesis
  proof (cases "malloc_ok e (fend f + 1)")
    case False
    with Some show ?thesis by (simp add: read_file_def)
  next
    case True
    with assms Some have short: "length (fdata f) < unat (fend f)"
      by (simp add: load_fails_def)
    then have "unat (word_of_nat (length (fdata f)) :: 64 word) = length (fdata f)"
      by (intro le_unat_uoi [of _ "fend f"]) simp
    with short have "(word_of_nat (length (fdata f)) :: 64 word) \<noteq> fend f" by auto
    with Some True short show ?thesis
      by (simp add: read_file_def fread_def Let_def free_def)
  qed
qed

lemma root_prefix_strncmp:
  "strncmp_eq p (realpath_into e root_dir (uninitialised e))
     (length (realpath_into e root_dir (uninitialised e))) = root_prefix e root_dir p"
  by (simp add: strncmp_eq_def root_prefix_def Let_def)

subsection \<open>The handler after a successful scan\<close>

lemma request_ofD:
  assumes "request_of e = Some (method, target, protocol)"
  obtains bytes where "incoming e = Some bytes" and "bytes \<noteq> []"
    and "sscanf_request (c_str (take 4095 bytes)) = (3, method, target, protocol)"
  using assms
  by (auto simp: request_of_def MAXDATASIZE_def split: option.splits if_splits prod.splits)

lemma handle_client_parsed:
  assumes "request_of e = Some (method, target, protocol)"
  shows "handle_client e root_dir =
     (if strstr (strip_query target) ''..'' \<noteq> None
      then close (send_error e start 403 ''Forbidden path traversal'')
      else if method \<noteq> ''GET''
      then close (send_error e start 501 ''Only GET is supported'')
      else
        case realpath_of e (candidate root_dir target) of
          None \<Rightarrow> close (send_error e start 404 ''File not found'')
        | Some real_requested_path \<Rightarrow>
            let real_root = realpath_into e root_dir (uninitialised e)
            in if \<not> strncmp_eq real_requested_path real_root (length real_root)
               then close (send_error e start 403 ''Forbidden path'')
               else
                 case read_file e start real_requested_path of
                   (None, s1) \<Rightarrow> close (send_error e s1 404 ''File not found'')
                 | (Some (body, file_size), s1) \<Rightarrow>
                     let content_type = get_content_type real_requested_path;
                         (header, header_len) =
                            snprintf 512
                              (''HTTP/1.0 200 OK'' @ CRLF @
                               ''Content-Type: '' @ content_type @ CRLF @
                               ''Content-Length: '' @ show_int (sint file_size) @ CRLF @
                               CRLF);
                         (s2, _) = send e s1 (take (nat header_len) header);
                         (s3, sent_ret) = send e s2 (take (unat file_size) body);
                         s4 = (if sent_ret = - 1
                               then send_error e s3 500 ''Failed to send response body''
                               else s3)
                     in close (free s4))"
proof -
  from assms obtain bytes where b: "incoming e = Some bytes" "bytes \<noteq> []"
    "sscanf_request (c_str (take 4095 bytes)) = (3, method, target, protocol)"
    by (rule request_ofD)
  have rc: "recv e (MAXDATASIZE - 1) = (int (length (take 4095 bytes)), take 4095 bytes)"
    using b(1) by (simp add: recv_def MAXDATASIZE_def)
  have pos: "\<not> int (length (take 4095 bytes)) \<le> 0"
    using b(2) by (cases bytes) simp_all
  show ?thesis
    unfolding handle_client_def rc Let_def prod.case candidate_def
    by (simp only: pos if_False nat_int take_all order_refl b(3) prod.case cut_at_twice simp_thms)
qed

lemma handle_client_unparsed:
  assumes "request_of e = None"
  shows "handle_client e root_dir =
     (if incoming e = None \<or> incoming e = Some [] then close start
      else close (send_error e start 400 ''Malformed request''))"
proof (cases "incoming e")
  case None
  then show ?thesis by (simp add: handle_client_def recv_def)
next
  case (Some bytes)
  show ?thesis
  proof (cases "bytes = []")
    case True
    with Some show ?thesis by (simp add: handle_client_def recv_def)
  next
    case False
    have rc: "recv e (MAXDATASIZE - 1) = (int (length (take 4095 bytes)), take 4095 bytes)"
      using Some by (simp add: recv_def MAXDATASIZE_def)
    have pos: "\<not> int (length (take 4095 bytes)) \<le> 0"
      using False by (cases bytes) simp_all
    obtain n m t p where sc: "sscanf_request (c_str (take 4095 bytes)) = (n, m, t, p)"
      by (cases "sscanf_request (c_str (take 4095 bytes))") auto
    with assms Some False have n: "n \<noteq> 3"
      by (auto simp: request_of_def MAXDATASIZE_def split: if_splits)
    show ?thesis
      unfolding handle_client_def rc Let_def prod.case
      using Some False n
      by (simp only: pos if_False nat_int take_all order_refl sc prod.case simp_thms if_True
            option.inject option.distinct)
  qed
qed

lemma take_snprintf: "take (nat (snd (snprintf 512 s))) (fst (snprintf 512 s)) = take 511 s"
  by (simp add: snprintf_def min_def)

lemma handle_client_served:
  assumes "request_of e = Some (''GET'', target, protocol)"
    and "\<forall>a b. strip_query target \<noteq> a @ ''..'' @ b"
    and "realpath_of e (candidate root_dir target) = Some rp"
    and "root_prefix e root_dir rp"
    and "loads e rp f"
  shows "handle_client e root_dir =
           \<lparr>sent = [take 511 (''HTTP/1.0 200 OK'' @ CRLF @
                               ''Content-Type: '' @ get_content_type rp @ CRLF @
                               ''Content-Length: '' @ show_int (sint (fend f)) @ CRLF @
                               CRLF),
                    take (unat (fend f)) (fdata f)] @
                   (if send_ret e 1 (take (unat (fend f)) (fdata f)) = - 1
                    then error_response 500 ''Failed to send response body'' else []),
            closed = True, allocated = 0\<rparr>"
proof -
  from assms(2) have nd: "strstr (strip_query target) ''..'' = None"
    by (simp add: strstr_None)
  show ?thesis
    unfolding handle_client_parsed [OF assms(1)]
    by (simp add: nd assms(3) root_prefix_strncmp assms(4) read_file_loads [OF assms(5)]
        Let_def split_beta take_snprintf send_def send_error_eq start_def close_def free_def)
qed

lemma handle_client_not_found:
  assumes "request_of e = Some (''GET'', target, protocol)"
    and "\<forall>a b. strip_query target \<noteq> a @ ''..'' @ b"
    and "case realpath_of e (candidate root_dir target) of
           None \<Rightarrow> True
         | Some rp \<Rightarrow> root_prefix e root_dir rp \<and> load_fails e rp"
  shows "handle_client e root_dir =
           \<lparr>sent = error_response 404 ''File not found'', closed = True, allocated = 0\<rparr>"
proof -
  from assms(2) have nd: "strstr (strip_query target) ''..'' = None"
    by (simp add: strstr_None)
  show ?thesis
  proof (cases "realpath_of e (candidate root_dir target)")
    case None
    then show ?thesis
      unfolding handle_client_parsed [OF assms(1)]
      by (simp add: nd send_error_eq start_def close_def)
  next
    case (Some rp)
    with assms(3) have "root_prefix e root_dir rp" "load_fails e rp" by simp_all
    then show ?thesis
      unfolding handle_client_parsed [OF assms(1)]
      by (simp add: nd Some root_prefix_strncmp read_file_fails Let_def send_error_eq
          start_def close_def)
  qed
qed

lemma handle_client_outside_root:
  assumes "request_of e = Some (''GET'', target, protocol)"
    and "\<forall>a b. strip_query target \<noteq> a @ ''..'' @ b"
    and "realpath_of e (candidate root_dir target) = Some rp"
    and "\<not> root_prefix e root_dir rp"
  shows "handle_client e root_dir =
           \<lparr>sent = error_response 403 ''Forbidden path'', closed = True, allocated = 0\<rparr>"
proof -
  from assms(2) have nd: "strstr (strip_query target) ''..'' = None"
    by (simp add: strstr_None)
  show ?thesis
    unfolding handle_client_parsed [OF assms(1)]
    by (simp add: nd assms(3) root_prefix_strncmp assms(4) Let_def send_error_eq start_def close_def)
qed

subsection \<open>The content-type resolver\<close>

lemma strrchr_None: "strrchr s c = None \<longleftrightarrow> c \<notin> set s"
  by (induction s) (auto split: option.splits)

lemma strrchr_last: "c \<notin> set suf \<Longrightarrow> strrchr (pre @ c # suf) c = Some (c # suf)"
  by (induction pre) (auto simp: strrchr_None [THEN iffD2])

text \<open>
  Claim C7.  The content-type resolver is a total function of the path alone.  A path
  without a dot has type \<open>text/plain\<close>.  Otherwise the path is \<open>pre @ ''.'' @ suf\<close> with no
  dot in \<open>suf\<close> (the rightmost dot of the whole path), and the type is read from \<open>suf\<close>
  by exact, case-sensitive comparison: \<open>html\<close>, \<open>jpg\<close> and \<open>jpeg\<close>, \<open>png\<close>, \<open>css\<close>,
  \<open>js\<close>, and \<open>application/octet-stream\<close> for every other extension.
\<close>

theorem get_content_type_table:
  "(CHR ''.'' \<notin> set path \<longrightarrow> get_content_type path = ''text/plain'')
   \<and> (CHR ''.'' \<notin> set suf \<longrightarrow>
        get_content_type (pre @ CHR ''.'' # suf) =
          (if suf = ''html'' then ''text/html''
           else if suf = ''jpg'' \<or> suf = ''jpeg'' then ''image/jpeg''
           else if suf = ''png'' then ''image/png''
           else if suf = ''css'' then ''text/css''
           else if suf = ''js'' then ''application/javascript''
           else ''application/octet-stream''))"
  by (simp add: get_content_type_def strrchr_last strrchr_None [THEN iffD2])

theorem get_content_type_table_witness:
  "CHR ''.'' \<notin> set ''/srv/www/README''
   \<and> get_content_type ''/srv/www/README'' = ''text/plain''
   \<and> CHR ''.'' \<notin> set ''JPG''
   \<and> get_content_type (''/srv/www.d/photo'' @ CHR ''.'' # ''JPG'') = ''application/octet-stream''
   \<and> CHR ''.'' \<notin> set ''jpeg''
   \<and> get_content_type (''/srv/www.d/photo'' @ CHR ''.'' # ''jpeg'') = ''image/jpeg''
   \<and> CHR ''.'' \<notin> set ''d/index''
   \<and> get_content_type (''/srv/www'' @ CHR ''.'' # ''d/index'') = ''application/octet-stream''"
  using get_content_type_table [of "''/srv/www/README''" "''JPG''" "''/srv/www.d/photo''"]
    get_content_type_table [of "''/srv/www/README''" "''jpeg''" "''/srv/www.d/photo''"]
    get_content_type_table [of "''/srv/www/README''" "''d/index''" "''/srv/www''"]
  by simp

subsection \<open>The check for \<open>..\<close>\<close>

text \<open>
  Claim C2, as the code has it.  The handler first cuts the target at its first \<open>?\<close> and at
  its first \<open>#\<close> and then looks for \<open>..\<close>.  Whenever the scan stored three fields and the
  target without query string and fragment contains \<open>..\<close>, the handler sends the response
  403 \<open>Forbidden path traversal\<close> and nothing else, closes the connection, and does so
  for every method, every root directory and every file system: neither \<open>realpath\<close> nor
  a file is consulted.
\<close>

theorem dotdot_forbidden:
  assumes "request_of e = Some (method, target, protocol)"
    and "strip_query target = a @ ''..'' @ b"
  shows "handle_client e root_dir =
           \<lparr>sent = [''HTTP/1.0 403 Forbidden'' @ CRLF @ ''Content-Type: application/json'' @ CRLF @
                     ''Content-Length: 37'' @ CRLF @ CRLF,
                    ''{\"error\": \"Forbidden path traversal\"}''],
            closed = True, allocated = 0\<rparr>"
proof -
  from assms(2) have "strstr (strip_query target) ''..'' \<noteq> None"
    using strstr_None [of "strip_query target" "''..''"] by blast
  then have "handle_client e root_dir = close (send_error e start 403 ''Forbidden path traversal'')"
    by (simp add: handle_client_parsed [OF assms(1)])
  then show ?thesis
    by (simp add: send_error_eq response_403_traversal close_def start_def)
qed

theorem dotdot_forbidden_witness:
  "request_of (www (''GET /img/../../etc/passwd HTTP/1.0'' @ CRLF @ CRLF)) =
     Some (''GET'', ''/img/../../etc/passwd'', ''HTTP/1.0'')
   \<and> strip_query ''/img/../../etc/passwd'' = ''/img/'' @ ''..'' @ ''/../etc/passwd''
   \<and> handle_client (www (''GET /img/../../etc/passwd HTTP/1.0'' @ CRLF @ CRLF)) ''/var/www'' =
           \<lparr>sent = [''HTTP/1.0 403 Forbidden'' @ CRLF @ ''Content-Type: application/json'' @ CRLF @
                     ''Content-Length: 37'' @ CRLF @ CRLF,
                    ''{\"error\": \"Forbidden path traversal\"}''],
            closed = True, allocated = 0\<rparr>"
proof -
  have r: "request_of (www (''GET /img/../../etc/passwd HTTP/1.0'' @ CRLF @ CRLF)) =
     Some (''GET'', ''/img/../../etc/passwd'', ''HTTP/1.0'')"
    by code_simp
  have s: "strip_query ''/img/../../etc/passwd'' = ''/img/'' @ ''..'' @ ''/../etc/passwd''"
    by code_simp
  show ?thesis
    using r s dotdot_forbidden [OF r s, of "''/var/www''"] by simp
qed

text \<open>
  Claim C2 as stated fails: the target \<open>/?next=..\<close> contains \<open>..\<close>, in its query string,
  and the request is answered with the index page.
\<close>

theorem dotdot_in_query_served:
  "request_of (www (''GET /?next=.. HTTP/1.0'' @ CRLF @ CRLF)) =
     Some (''GET'', ''/?next=..'', ''HTTP/1.0'')
   \<and> ''/?next=..'' = ''/?next='' @ ''..'' @ []
   \<and> sent (handle_client (www (''GET /?next=.. HTTP/1.0'' @ CRLF @ CRLF)) ''/var/www'') =
        [''HTTP/1.0 200 OK'' @ CRLF @ ''Content-Type: text/html'' @ CRLF @
         ''Content-Length: 13'' @ CRLF @ CRLF,
         ''Hello World!'' @ [CHR 0x0A]]"
  by code_simp

subsection \<open>Methods other than GET\<close>

text \<open>
  Claim C3, as the code has it.  The check for \<open>..\<close> comes before the check of the
  method.  Whenever the scan stored three fields, the method is not exactly \<open>GET\<close> and the
  target without query string and fragment does not contain \<open>..\<close>, the handler sends
  status 501 with the status text \<open>Error\<close> and the JSON body
  \<open>{"error": "Only GET is supported"}\<close>, and nothing else.
\<close>

theorem non_get_not_implemented:
  assumes "request_of e = Some (method, target, protocol)"
    and "method \<noteq> ''GET''"
    and "\<forall>a b. strip_query target \<noteq> a @ ''..'' @ b"
  shows "handle_client e root_dir =
           \<lparr>sent = [''HTTP/1.0 501 Error'' @ CRLF @ ''Content-Type: application/json'' @ CRLF @
                     ''Content-Length: 34'' @ CRLF @ CRLF,
                    ''{\"error\": \"Only GET is supported\"}''],
            closed = True, allocated = 0\<rparr>"
proof -
  from assms(3) have "strstr (strip_query target) ''..'' = None"
    by (simp add: strstr_None)
  with assms(2)
  have "handle_client e root_dir = close (send_error e start 501 ''Only GET is supported'')"
    by (simp add: handle_client_parsed [OF assms(1)])
  then show ?thesis
    by (simp add: send_error_eq response_501 close_def start_def)
qed

theorem non_get_not_implemented_witness:
  "request_of (www (''HEAD /index.html?x=1 HTTP/1.0'' @ CRLF @ CRLF)) =
     Some (''HEAD'', ''/index.html?x=1'', ''HTTP/1.0'')
   \<and> ''HEAD'' \<noteq> ''GET''
   \<and> (\<forall>a b. strip_query ''/index.html?x=1'' \<noteq> a @ ''..'' @ b)
   \<and> handle_client (www (''HEAD /index.html?x=1 HTTP/1.0'' @ CRLF @ CRLF)) ''/var/www'' =
           \<lparr>sent = [''HTTP/1.0 501 Error'' @ CRLF @ ''Content-Type: application/json'' @ CRLF @
                     ''Content-Length: 34'' @ CRLF @ CRLF,
                    ''{\"error\": \"Only GET is supported\"}''],
            closed = True, allocated = 0\<rparr>"
proof -
  have r: "request_of (www (''HEAD /index.html?x=1 HTTP/1.0'' @ CRLF @ CRLF)) =
     Some (''HEAD'', ''/index.html?x=1'', ''HTTP/1.0'')"
    by code_simp
  have m: "''HEAD'' \<noteq> ''GET''" by simp
  have "strstr (strip_query ''/index.html?x=1'') ''..'' = None" by code_simp
  then have d: "\<forall>a b. strip_query ''/index.html?x=1'' \<noteq> a @ ''..'' @ b"
    using strstr_None [of "strip_query ''/index.html?x=1''" "''..''"] by blast
  show ?thesis
    using r d non_get_not_implemented [OF r m d, of "''/var/www''"] by simp
qed

text \<open>
  Claim C3 as stated fails: a \<open>POST\<close> request whose target contains \<open>..\<close> is answered
  with 403, not with 501.
\<close>

theorem post_with_dotdot_forbidden:
  "request_of (www (''POST /../etc/passwd HTTP/1.0'' @ CRLF @ CRLF)) =
     Some (''POST'', ''/../etc/passwd'', ''HTTP/1.0'')
   \<and> ''POST'' \<noteq> ''GET''
   \<and> sent (handle_client (www (''POST /../etc/passwd HTTP/1.0'' @ CRLF @ CRLF)) ''/var/www'') =
        [''HTTP/1.0 403 Forbidden'' @ CRLF @ ''Content-Type: application/json'' @ CRLF @
         ''Content-Length: 37'' @ CRLF @ CRLF,
         ''{\"error\": \"Forbidden path traversal\"}'']"
  by code_simp

subsection \<open>Malformed requests\<close>

lemma scan_s_None: "ws_tokens s = [] \<Longrightarrow> scan_s w s = None"
  by (subst (asm) ws_tokens.simps) (simp add: scan_s_def split: if_splits)

lemma scan_s_fit:
  assumes "ws_tokens s = t # ts" and "length t \<le> w"
  shows "\<exists>r. scan_s w s = Some (t, r) \<and> ws_tokens r = ts"
proof -
  let ?s1 = "dropWhile isspace s"
  from assms(1) have ne: "?s1 \<noteq> []"
    and t: "t = takeWhile (\<lambda>c. \<not> isspace c) ?s1"
    and ts: "ts = ws_tokens (dropWhile (\<lambda>c. \<not> isspace c) ?s1)"
    by (subst (asm) ws_tokens.simps, simp split: if_splits)+
  have "drop (length t) ?s1 = dropWhile (\<lambda>c. \<not> isspace c) ?s1"
    unfolding t by (simp add: dropWhile_eq_drop)
  with ne t ts assms(2) show ?thesis
    by (simp add: scan_s_def Let_def)
qed

lemma sscanf_few_tokens:
  assumes "length (ws_tokens s) < 3" and "fields_fit (ws_tokens s)"
  shows "fst (sscanf_request s) \<noteq> 3"
proof (cases "ws_tokens s")
  case Nil
  then show ?thesis by (simp add: sscanf_request_def scan_s_None)
next
  case (Cons m ts)
  with assms(2) have "length m \<le> 7" by (cases ts) simp_all
  from scan_s_fit [OF Cons this] obtain r1 where
    r1: "scan_s 7 s = Some (m, r1)" "ws_tokens r1 = ts" by blast
  show ?thesis
  proof (cases ts)
    case Nil
    with r1 show ?thesis by (simp add: sscanf_request_def scan_s_None)
  next
    case (Cons t us)
    with assms \<open>ws_tokens s = m # ts\<close> have us: "us = []" and "length t \<le> 255" by simp_all
    from scan_s_fit [OF _ this(2), of r1 us] r1 Cons obtain r2 where
      r2: "scan_s 255 r1 = Some (t, r2)" "ws_tokens r2 = us" by blast
    with r1 us show ?thesis by (simp add: sscanf_request_def scan_s_None)
  qed
qed

text \<open>
  Claim C4, as the code has it.  The scan runs over the whole text of the received buffer,
  where a line break is white space like a blank, and a token longer than its field is
  split.  Whenever that text as a whole holds fewer than three white-space separated
  tokens, the first of at most 7 bytes and the second of at most 255, the handler sends
  400 \<open>Bad Request\<close> with the JSON body \<open>{"error": "Malformed request"}\<close> and nothing
  else, and closes the connection, whatever the file system holds.
\<close>

theorem few_tokens_bad_request:
  assumes "incoming e = Some bytes" and "bytes \<noteq> []"
    and "length (ws_tokens (received_text e)) < 3"
    and "fields_fit (ws_tokens (received_text e))"
  shows "handle_client e root_dir =
           \<lparr>sent = [''HTTP/1.0 400 Bad Request'' @ CRLF @ ''Content-Type: application/json'' @ CRLF @
                     ''Content-Length: 30'' @ CRLF @ CRLF,
                    ''{\"error\": \"Malformed request\"}''],
            closed = True, allocated = 0\<rparr>"
proof -
  have rt: "received_text e = c_str (take (MAXDATASIZE - 1) bytes)"
    using assms(1) by (simp add: received_text_def)
  from sscanf_few_tokens [OF assms(3,4)] have "request_of e = None"
    using assms(1,2) by (auto simp: request_of_def rt split: prod.splits)
  then have "handle_client e root_dir = close (send_error e start 400 ''Malformed request'')"
    using assms(1,2) by (simp add: handle_client_unparsed)
  then show ?thesis
    by (simp add: send_error_eq response_400 close_def start_def)
qed

theorem few_tokens_bad_request_witness:
  "incoming (www (''GET'' @ CRLF)) = Some (''GET'' @ CRLF) \<and> ''GET'' @ CRLF \<noteq> []
   \<and> length (ws_tokens (received_text (www (''GET'' @ CRLF)))) < 3
   \<and> fields_fit (ws_tokens (received_text (www (''GET'' @ CRLF))))
   \<and> handle_client (www (''GET'' @ CRLF)) ''/var/www'' =
           \<lparr>sent = [''HTTP/1.0 400 Bad Request'' @ CRLF @ ''Content-Type: application/json'' @ CRLF @
                     ''Content-Length: 30'' @ CRLF @ CRLF,
                    ''{\"error\": \"Malformed request\"}''],
            closed = True, allocated = 0\<rparr>"
proof -
  have i: "incoming (www (''GET'' @ CRLF)) = Some (''GET'' @ CRLF)" by (simp add: www_def)
  have n: "''GET'' @ CRLF \<noteq> []" by simp
  have l: "length (ws_tokens (received_text (www (''GET'' @ CRLF)))) < 3" by code_simp
  have f: "fields_fit (ws_tokens (received_text (www (''GET'' @ CRLF))))" by code_simp
  show ?thesis
    using i n l f few_tokens_bad_request [OF i n l f, of "''/var/www''"] by simp
qed

text \<open>
  Claim C4 as stated fails.  The first line \<open>GET /\<close> has two tokens; the scan takes the
  third field from the next line and the index page is served.  The first line
  \<open>GETGETGET /\<close> has two tokens; the scan splits the first after 7 bytes, finds three
  fields and the answer is 501.
\<close>

theorem short_first_line_not_rejected:
  "length (ws_tokens (first_line (''GET /'' @ CRLF @ ''Host: example.org'' @ CRLF @ CRLF))) = 2
   \<and> sent (handle_client (www (''GET /'' @ CRLF @ ''Host: example.org'' @ CRLF @ CRLF)) ''/var/www'') =
        [''HTTP/1.0 200 OK'' @ CRLF @ ''Content-Type: text/html'' @ CRLF @
         ''Content-Length: 13'' @ CRLF @ CRLF,
         ''Hello World!'' @ [CHR 0x0A]]
   \<and> length (ws_tokens (first_line (''GETGETGET /'' @ CRLF))) = 2
   \<and> sent (handle_client (www (''GETGETGET /'' @ CRLF)) ''/var/www'') =
        [''HTTP/1.0 501 Error'' @ CRLF @ ''Content-Type: application/json'' @ CRLF @
         ''Content-Length: 34'' @ CRLF @ CRLF,
         ''{\"error\": \"Only GET is supported\"}'']"
  by code_simp

subsection \<open>A failing \<open>send\<close> on the success path\<close>

text \<open>
  Claim C9.  On the success path (a \<open>GET\<close> request without \<open>..\<close> whose candidate path
  resolves, passes the containment check and loads) the handler hands the head and the
  body to \<open>send\<close>, and after them the response 500 \<open>Failed to send response body\<close> if and
  only if the second call of \<open>send\<close>, the one for the body, returned -1.  What the first
  call (for the head) returns plays no role, and a body \<open>send\<close> that returns any other
  value, such as a short count, is followed by nothing: the buffer is freed and the
  connection closed in either case.
\<close>

theorem body_send_failure_only:
  assumes "request_of e = Some (''GET'', target, protocol)"
    and "\<forall>a b. strip_query target \<noteq> a @ ''..'' @ b"
    and "realpath_of e (candidate root_dir target) = Some rp"
    and "root_prefix e root_dir rp"
    and "loads e rp f"
  shows "\<exists>head. handle_client e root_dir =
           \<lparr>sent = [head, take (unat (fend f)) (fdata f)] @
                   (if send_ret e 1 (take (unat (fend f)) (fdata f)) = - 1
                    then [''HTTP/1.0 500 Internal Server Error'' @ CRLF @
                          ''Content-Type: application/json'' @ CRLF @
                          ''Content-Length: 41'' @ CRLF @ CRLF,
                          ''{\"error\": \"Failed to send response body\"}'']
                    else []),
            closed = True, allocated = 0\<rparr>"
  unfolding response_500 [symmetric]
  by (rule exI, rule handle_client_served [OF assms])

theorem body_send_failure_only_witness:
  "request_of (www_send body_send_fails (''GET / HTTP/1.0'' @ CRLF @ CRLF)) = Some (''GET'', ''/'', ''HTTP/1.0'')
   \<and> (\<forall>a b. strip_query ''/'' \<noteq> a @ ''..'' @ b)
   \<and> realpath_of (www_send body_send_fails (''GET / HTTP/1.0'' @ CRLF @ CRLF)) (candidate ''/var/www'' ''/'') =
       Some ''/var/www/index.html''
   \<and> root_prefix (www_send body_send_fails (''GET / HTTP/1.0'' @ CRLF @ CRLF)) ''/var/www'' ''/var/www/index.html''
   \<and> loads (www_send body_send_fails (''GET / HTTP/1.0'' @ CRLF @ CRLF)) ''/var/www/index.html''
         \<lparr>fend = 13, fdata = ''Hello World!'' @ [CHR 0x0A]\<rparr>
   \<and> handle_client (www_send body_send_fails (''GET / HTTP/1.0'' @ CRLF @ CRLF)) ''/var/www'' =
         \<lparr>sent = [''HTTP/1.0 200 OK'' @ CRLF @ ''Content-Type: text/html'' @ CRLF @
                   ''Content-Length: 13'' @ CRLF @ CRLF,
                  ''Hello World!'' @ [CHR 0x0A],
                  ''HTTP/1.0 500 Internal Server Error'' @ CRLF @
                   ''Content-Type: application/json'' @ CRLF @
                   ''Content-Length: 41'' @ CRLF @ CRLF,
                  ''{\"error\": \"Failed to send response body\"}''],
          closed = True, allocated = 0\<rparr>
   \<and> handle_client (www_send head_send_fails (''GET / HTTP/1.0'' @ CRLF @ CRLF)) ''/var/www'' =
         \<lparr>sent = [''HTTP/1.0 200 OK'' @ CRLF @ ''Content-Type: text/html'' @ CRLF @
                   ''Content-Length: 13'' @ CRLF @ CRLF,
                  ''Hello World!'' @ [CHR 0x0A]],
          closed = True, allocated = 0\<rparr>"
proof -
  let ?e = "www_send body_send_fails (''GET / HTTP/1.0'' @ CRLF @ CRLF)"
  have r: "request_of ?e = Some (''GET'', ''/'', ''HTTP/1.0'')" by code_simp
  have "strstr (strip_query ''/'') ''..'' = None" by code_simp
  then have d: "\<forall>a b. strip_query ''/'' \<noteq> a @ ''..'' @ b"
    using strstr_None [of "strip_query ''/''" "''..''"] by blast
  have p: "realpath_of ?e (candidate ''/var/www'' ''/'') = Some ''/var/www/index.html''" by code_simp
  have c: "root_prefix ?e ''/var/www'' ''/var/www/index.html''" by code_simp
  have l: "loads ?e ''/var/www/index.html'' \<lparr>fend = 13, fdata = ''Hello World!'' @ [CHR 0x0A]\<rparr>"
    by code_simp
  have v: "handle_client ?e ''/var/www'' =
         \<lparr>sent = [''HTTP/1.0 200 OK'' @ CRLF @ ''Content-Type: text/html'' @ CRLF @
                   ''Content-Length: 13'' @ CRLF @ CRLF,
                  ''Hello World!'' @ [CHR 0x0A],
                  ''HTTP/1.0 500 Internal Server Error'' @ CRLF @
                   ''Content-Type: application/json'' @ CRLF @
                   ''Content-Length: 41'' @ CRLF @ CRLF,
                  ''{\"error\": \"Failed to send response body\"}''],
          closed = True, allocated = 0\<rparr>"
    by code_simp
  have w: "handle_client (www_send head_send_fails (''GET / HTTP/1.0'' @ CRLF @ CRLF)) ''/var/www'' =
         \<lparr>sent = [''HTTP/1.0 200 OK'' @ CRLF @ ''Content-Type: text/html'' @ CRLF @
                   ''Content-Length: 13'' @ CRLF @ CRLF,
                  ''Hello World!'' @ [CHR 0x0A]],
          closed = True, allocated = 0\<rparr>"
    by code_simp
  show ?thesis
    using r d p c l v w body_send_failure_only [OF r d p c l] by blast
qed

subsection \<open>Files that cannot be resolved or loaded\<close>

text \<open>
  Claim C8, as the code has it.  For a \<open>GET\<close> request from which three fields were scanned
  and whose target has no \<open>..\<close>: if the candidate path cannot be canonicalized, or it
  canonicalizes to a path that passes the containment check and whose file cannot be
  opened, cannot be given a buffer, or delivers fewer bytes than its size, the handler
  sends 404 \<open>File not found\<close> and nothing else.  No body byte of a short read is sent
  and no buffer remains allocated.
\<close>

theorem not_found_response:
  assumes "request_of e = Some (''GET'', target, protocol)"
    and "\<forall>a b. strip_query target \<noteq> a @ ''..'' @ b"
    and "case realpath_of e (candidate root_dir target) of
           None \<Rightarrow> True
         | Some rp \<Rightarrow> root_prefix e root_dir rp \<and> load_fails e rp"
  shows "handle_client e root_dir =
           \<lparr>sent = [''HTTP/1.0 404 Not Found'' @ CRLF @ ''Content-Type: application/json'' @ CRLF @
                     ''Content-Length: 27'' @ CRLF @ CRLF,
                    ''{\"error\": \"File not found\"}''],
            closed = True, allocated = 0\<rparr>"
  unfolding response_404 [symmetric]
  by (rule handle_client_not_found [OF assms])

theorem not_found_response_witness:
  "request_of (www (''GET /style.css HTTP/1.0'' @ CRLF @ CRLF)) = Some (''GET'', ''/style.css'', ''HTTP/1.0'')
   \<and> (\<forall>a b. strip_query ''/style.css'' \<noteq> a @ ''..'' @ b)
   \<and> (case realpath_of (www (''GET /style.css HTTP/1.0'' @ CRLF @ CRLF)) (candidate ''/var/www'' ''/style.css'') of
           None \<Rightarrow> True
         | Some rp \<Rightarrow> root_prefix (www (''GET /style.css HTTP/1.0'' @ CRLF @ CRLF)) ''/var/www'' rp
                      \<and> load_fails (www (''GET /style.css HTTP/1.0'' @ CRLF @ CRLF)) rp)
   \<and> realpath_of (www (''GET /style.css HTTP/1.0'' @ CRLF @ CRLF)) (candidate ''/var/www'' ''/style.css'') =
        Some ''/var/www/style.css''
   \<and> handle_client (www (''GET /style.css HTTP/1.0'' @ CRLF @ CRLF)) ''/var/www'' =
           \<lparr>sent = [''HTTP/1.0 404 Not Found'' @ CRLF @ ''Content-Type: application/json'' @ CRLF @
                     ''Content-Length: 27'' @ CRLF @ CRLF,
                    ''{\"error\": \"File not found\"}''],
            closed = True, allocated = 0\<rparr>"
proof -
  let ?e = "www (''GET /style.css HTTP/1.0'' @ CRLF @ CRLF)"
  have r: "request_of ?e = Some (''GET'', ''/style.css'', ''HTTP/1.0'')" by code_simp
  have "strstr (strip_query ''/style.css'') ''..'' = None" by code_simp
  then have d: "\<forall>a b. strip_query ''/style.css'' \<noteq> a @ ''..'' @ b"
    using strstr_None [of "strip_query ''/style.css''" "''..''"] by blast
  have p: "realpath_of ?e (candidate ''/var/www'' ''/style.css'') = Some ''/var/www/style.css''"
    by code_simp
  have c: "case realpath_of ?e (candidate ''/var/www'' ''/style.css'') of
           None \<Rightarrow> True
         | Some rp \<Rightarrow> root_prefix ?e ''/var/www'' rp \<and> load_fails ?e rp"
    by code_simp
  show ?thesis
    using r d p c not_found_response [OF r d c] by blast
qed

text \<open>
  Claim C8 as stated fails for a file outside the root: the link \<open>/var/www/passwd\<close>
  canonicalizes to \<open>/etc/passwd\<close>, which cannot be opened, and the answer is 403, since
  the containment check comes before the file is opened.
\<close>

theorem unreadable_outside_root_forbidden:
  "request_of (www (''GET /passwd HTTP/1.0'' @ CRLF @ CRLF)) = Some (''GET'', ''/passwd'', ''HTTP/1.0'')
   \<and> strstr (strip_query ''/passwd'') ''..'' = None
   \<and> realpath_of (www (''GET /passwd HTTP/1.0'' @ CRLF @ CRLF)) (candidate ''/var/www'' ''/passwd'') =
        Some ''/etc/passwd''
   \<and> fopen_of (www (''GET /passwd HTTP/1.0'' @ CRLF @ CRLF)) ''/etc/passwd'' = None
   \<and> sent (handle_client (www (''GET /passwd HTTP/1.0'' @ CRLF @ CRLF)) ''/var/www'') =
        [''HTTP/1.0 403 Forbidden'' @ CRLF @ ''Content-Type: application/json'' @ CRLF @
         ''Content-Length: 27'' @ CRLF @ CRLF,
         ''{\"error\": \"Forbidden path\"}'']"
  by code_simp

subsection \<open>Containment in the root directory\<close>

text \<open>
  Claim C1 against the code.  The containment check compares bytes: it accepts every
  canonical path of which the canonical root is a prefix.  With the root \<open>/var/www\<close> the
  request \<open>GET -private/secret.txt\<close> has the candidate path
  \<open>/var/www-private/secret.txt\<close>, which is canonical, begins with \<open>/var/www\<close> and is not
  below \<open>/var/www\<close>: the file is served with status 200.
\<close>

theorem sibling_directory_served:
  "request_of (www (''GET -private/secret.txt HTTP/1.0'' @ CRLF @ CRLF)) =
     Some (''GET'', ''-private/secret.txt'', ''HTTP/1.0'')
   \<and> realpath_of (www (''GET -private/secret.txt HTTP/1.0'' @ CRLF @ CRLF)) ''/var/www'' = Some ''/var/www''
   \<and> realpath_of (www (''GET -private/secret.txt HTTP/1.0'' @ CRLF @ CRLF))
         (candidate ''/var/www'' ''-private/secret.txt'') = Some ''/var/www-private/secret.txt''
   \<and> \<not> strict_descendant ''/var/www'' ''/var/www-private/secret.txt''
   \<and> handle_client (www (''GET -private/secret.txt HTTP/1.0'' @ CRLF @ CRLF)) ''/var/www'' =
        \<lparr>sent = [''HTTP/1.0 200 OK'' @ CRLF @ ''Content-Type: application/octet-stream'' @ CRLF @
                  ''Content-Length: 6'' @ CRLF @ CRLF,
                 ''secret''],
         closed = True, allocated = 0\<rparr>"
  by code_simp

subsection \<open>The bytes on the socket do not matter beyond the scan\<close>

lemma fields_incoming:
  "realpath_of (e\<lparr>incoming := x\<rparr>) = realpath_of e"
  "fopen_of (e\<lparr>incoming := x\<rparr>) = fopen_of e"
  "malloc_ok (e\<lparr>incoming := x\<rparr>) = malloc_ok e"
  "send_ret (e\<lparr>incoming := x\<rparr>) = send_ret e"
  "uninitialised (e\<lparr>incoming := x\<rparr>) = uninitialised e"
  by simp_all

lemma send_incoming: "send (e\<lparr>incoming := x\<rparr>) = send e"
  by (simp add: fun_eq_iff send_def)

lemma send_response_incoming:
  "send_response (e\<lparr>incoming := x\<rparr>) s c t ct b = send_response e s c t ct b"
  unfolding send_response_def send_incoming ..

lemma send_error_incoming: "send_error (e\<lparr>incoming := x\<rparr>) s c m = send_error e s c m"
  unfolding send_error_def send_response_incoming ..

lemma read_file_incoming: "read_file (e\<lparr>incoming := x\<rparr>) s p = read_file e s p"
  unfolding read_file_def fields_incoming ..

lemma realpath_into_incoming: "realpath_into (e\<lparr>incoming := x\<rparr>) p b = realpath_into e p b"
  unfolding realpath_into_def fields_incoming ..

lemma handle_client_same_request:
  assumes "request_of e = Some (m, t, p)"
    and "request_of (e\<lparr>incoming := x\<rparr>) = Some (m, t', p')"
    and "candidate root_dir t' = candidate root_dir t"
    and "strstr (strip_query t') ''..'' = None \<longleftrightarrow> strstr (strip_query t) ''..'' = None"
  shows "handle_client (e\<lparr>incoming := x\<rparr>) root_dir = handle_client e root_dir"
  unfolding handle_client_parsed [OF assms(1)] handle_client_parsed [OF assms(2)]
    assms(3,4) send_incoming send_error_incoming read_file_incoming
    realpath_into_incoming fields_incoming ..

text \<open>
  Claim C6.  With the same root directory, file system and connection behaviour, a \<open>GET\<close>
  request with the target \<open>/\<close> and a \<open>GET\<close> request with the target \<open>/index.html\<close> leave
  the handler in the same final state: the same buffers are sent in the same order.  Both
  targets have the candidate path \<open>root_dir/index.html\<close>.
\<close>

theorem index_alias:
  assumes "request_of e = Some (''GET'', ''/'', protocol)"
    and "request_of (e\<lparr>incoming := Some bytes\<rparr>) = Some (''GET'', ''/index.html'', protocol')"
  shows "handle_client (e\<lparr>incoming := Some bytes\<rparr>) root_dir = handle_client e root_dir"
proof -
  have s1: "strip_query ''/'' = ''/''" and s2: "strip_query ''/index.html'' = ''/index.html''"
    by (simp_all add: strip_query_def)
  have c: "candidate root_dir ''/index.html'' = candidate root_dir ''/''"
    by (simp add: candidate_def s1 s2)
  have n1: "strstr ''/'' ''..'' = None" by code_simp
  have n2: "strstr ''/index.html'' ''..'' = None" by code_simp
  show ?thesis
    by (rule handle_client_same_request [OF assms c]) (simp add: s1 s2 n1 n2)
qed

theorem index_alias_witness:
  "request_of (www (''GET / HTTP/1.0'' @ CRLF @ CRLF)) = Some (''GET'', ''/'', ''HTTP/1.0'')
   \<and> request_of ((www (''GET / HTTP/1.0'' @ CRLF @ CRLF))
        \<lparr>incoming := Some (''GET /index.html HTTP/1.0'' @ CRLF @ CRLF)\<rparr>) =
       Some (''GET'', ''/index.html'', ''HTTP/1.0'')
   \<and> handle_client ((www (''GET / HTTP/1.0'' @ CRLF @ CRLF))
        \<lparr>incoming := Some (''GET /index.html HTTP/1.0'' @ CRLF @ CRLF)\<rparr>) ''/var/www'' =
       handle_client (www (''GET / HTTP/1.0'' @ CRLF @ CRLF)) ''/var/www''
   \<and> sent (handle_client (www (''GET / HTTP/1.0'' @ CRLF @ CRLF)) ''/var/www'') =
        [''HTTP/1.0 200 OK'' @ CRLF @ ''Content-Type: text/html'' @ CRLF @
         ''Content-Length: 13'' @ CRLF @ CRLF,
         ''Hello World!'' @ [CHR 0x0A]]"
proof -
  have r1: "request_of (www (''GET / HTTP/1.0'' @ CRLF @ CRLF)) = Some (''GET'', ''/'', ''HTTP/1.0'')"
    by code_simp
  have r2: "request_of ((www (''GET / HTTP/1.0'' @ CRLF @ CRLF))
        \<lparr>incoming := Some (''GET /index.html HTTP/1.0'' @ CRLF @ CRLF)\<rparr>) =
       Some (''GET'', ''/index.html'', ''HTTP/1.0'')"
    by code_simp
  have v: "sent (handle_client (www (''GET / HTTP/1.0'' @ CRLF @ CRLF)) ''/var/www'') =
        [''HTTP/1.0 200 OK'' @ CRLF @ ''Content-Type: text/html'' @ CRLF @
         ''Content-Length: 13'' @ CRLF @ CRLF,
         ''Hello World!'' @ [CHR 0x0A]]"
    by code_simp
  show ?thesis
    using r1 r2 v index_alias [OF r1 r2, of "''/var/www''"] by blast
qed

subsection \<open>Framing\<close>

lemma show_int_200: "show_int 200 = ''200''"
  by code_simp

lemma length_get_content_type: "length (get_content_type p) \<le> 24"
  by (simp add: get_content_type_def split: option.splits)

lemma one_line_get_content_type: "one_line (get_content_type p)"
  by (simp add: get_content_type_def one_line_def split: option.splits)

lemma one_line_reason_phrase: "one_line (reason_phrase code)"
  by (simp add: reason_phrase_def one_line_def)

lemma length_show_long: "length (show_int (sint (w :: 64 word))) \<le> 20"
proof (cases "sint w < 0")
  case True
  have "- (2 ^ 63) \<le> sint w" using sint_ge [of w] by simp
  then have "- sint w \<le> 9223372036854775808" by simp
  then have "nat (- sint w) \<le> 9223372036854775808" by simp
  also have "(9223372036854775808 :: nat) < 10 ^ 19" by simp
  finally have "length (dec (nat (- sint w))) \<le> 19" by (intro length_dec) simp_all
  with True show ?thesis by (simp add: show_int_def)
next
  case False
  have "sint w < 2 ^ 63" using sint_lt [of w] by simp
  also have "(2 ^ 63 :: int) < 10 ^ 19" by simp
  finally have "length (show_int (sint w)) \<le> 19" using False by (intro length_show_int) simp_all
  then show ?thesis by simp
qed

text \<open>The header of a 200 response always fits the buffer of 512 bytes: \<open>snprintf\<close> never
  truncates it, and the length it returns is the length of what the buffer holds.\<close>

lemma header_fits:
  "length (''HTTP/1.0 200 OK'' @ CRLF @
           ''Content-Type: '' @ get_content_type rp @ CRLF @
           ''Content-Length: '' @ show_int (sint (w :: 64 word)) @ CRLF @
           CRLF) \<le> 511"
  using length_get_content_type [of rp] length_show_long [of w] by (simp add: CRLF_def)

lemma served_head:
  assumes "loads e rp f" and "length (fdata f) < 2 ^ 63"
  shows "take 511 (''HTTP/1.0 200 OK'' @ CRLF @
                   ''Content-Type: '' @ get_content_type rp @ CRLF @
                   ''Content-Length: '' @ show_int (sint (fend f)) @ CRLF @
                   CRLF) =
         response_head 200 ''OK'' (get_content_type rp) (length (fread f (fend f)))"
proof -
  from assms have le: "unat (fend f) \<le> length (fdata f)" by (simp add: loads_def)
  with assms(2) have small: "unat (fend f) < 2 ^ 63" by linarith
  have len: "length (fread f (fend f)) = unat (fend f)"
    using le by (simp add: fread_def)
  have s: "sint (fend f) = int (unat (fend f))" by (rule sint_small [OF small])
  have "int (unat (fend f)) < 2 ^ 63"
    using small by (metis of_nat_less_iff of_nat_numeral of_nat_power)
  also have "(2 ^ 63 :: int) < 10 ^ 19" by simp
  finally have "length (show_int (int (unat (fend f)))) \<le> 19"
    by (intro length_show_int) simp_all
  then have "length (''HTTP/1.0 200 OK'' @ CRLF @
                   ''Content-Type: '' @ get_content_type rp @ CRLF @
                   ''Content-Length: '' @ show_int (int (unat (fend f))) @ CRLF @
                   CRLF) \<le> 511"
    using length_get_content_type [of rp] by (simp add: CRLF_def)
  then show ?thesis
    unfolding s len by (simp add: response_head_def show_int_200)
qed

lemma not_load_fails: "\<not> load_fails e p \<Longrightarrow> \<exists>f. loads e p f"
  by (auto simp: load_fails_def loads_def split: option.splits)

lemma wire_error:
  "wire \<lparr>resp_status = code, resp_text = reason_phrase code, resp_type = ''application/json'',
         resp_body = error_body message\<rparr> = error_response code message"
  by (simp add: wire_def error_response_def)

text \<open>Every run of the handler ends in one of three ways.\<close>

lemma handle_client_outcomes:
  assumes "files_fit e"
  shows "sent (handle_client e root_dir) = []
     \<or> (\<exists>code message. code \<noteq> 200 \<and> sent (handle_client e root_dir) = error_response code message)
     \<or> (\<exists>rp f. fopen_of e rp = Some f \<and>
           sent (handle_client e root_dir) =
             wire \<lparr>resp_status = 200, resp_text = ''OK'', resp_type = get_content_type rp,
                   resp_body = fread f (fend f)\<rparr> @
             (if send_ret e 1 (fread f (fend f)) = - 1
              then error_response 500 ''Failed to send response body'' else []))"
proof (cases "request_of e")
  case None
  show ?thesis
  proof (cases "incoming e = None \<or> incoming e = Some []")
    case True
    then have "sent (handle_client e root_dir) = []"
      by (simp add: handle_client_unparsed [OF None] close_def start_def)
    then show ?thesis by simp
  next
    case False
    then have "sent (handle_client e root_dir) = error_response 400 ''Malformed request''"
      by (auto simp: handle_client_unparsed [OF None] close_def start_def send_error_eq)
    then show ?thesis by (intro disjI2 disjI1 exI [of _ 400] exI [of _ "''Malformed request''"]) simp
  qed
next
  case (Some req)
  then obtain m t p where r: "request_of e = Some (m, t, p)" by (cases req) auto
  show ?thesis
  proof (cases "strstr (strip_query t) ''..'' = None")
    case False
    then have "sent (handle_client e root_dir) = error_response 403 ''Forbidden path traversal''"
      by (simp add: handle_client_parsed [OF r] close_def start_def send_error_eq)
    then show ?thesis
      by (intro disjI2 disjI1 exI [of _ 403] exI [of _ "''Forbidden path traversal''"]) simp
  next
    case nd: True
    then have nd': "\<forall>a b. strip_query t \<noteq> a @ ''..'' @ b" by (simp add: strstr_None)
    show ?thesis
    proof (cases "m = ''GET''")
      case False
      with nd have "sent (handle_client e root_dir) = error_response 501 ''Only GET is supported''"
        by (simp add: handle_client_parsed [OF r] close_def start_def send_error_eq)
      then show ?thesis
        by (intro disjI2 disjI1 exI [of _ 501] exI [of _ "''Only GET is supported''"]) simp
    next
      case True
      note r = r [unfolded True]
      show ?thesis
      proof (cases "realpath_of e (candidate root_dir t)")
        case None
        then have "sent (handle_client e root_dir) = error_response 404 ''File not found''"
          by (simp add: handle_client_not_found [OF r nd'])
        then show ?thesis
          by (intro disjI2 disjI1 exI [of _ 404] exI [of _ "''File not found''"]) simp
      next
        case (Some rp)
        show ?thesis
        proof (cases "root_prefix e root_dir rp")
          case False
          then have "sent (handle_client e root_dir) = error_response 403 ''Forbidden path''"
            by (simp add: handle_client_outside_root [OF r nd' Some])
          then show ?thesis
            by (intro disjI2 disjI1 exI [of _ 403] exI [of _ "''Forbidden path''"]) simp
        next
          case pre: True
          show ?thesis
          proof (cases "load_fails e rp")
            case True
            with pre Some have "sent (handle_client e root_dir) = error_response 404 ''File not found''"
              by (simp add: handle_client_not_found [OF r nd'])
            then show ?thesis
              by (intro disjI2 disjI1 exI [of _ 404] exI [of _ "''File not found''"]) simp
          next
            case False
            then obtain f where l: "loads e rp f" using not_load_fails by blast
            then have o: "fopen_of e rp = Some f" and le: "unat (fend f) \<le> length (fdata f)"
              by (simp_all add: loads_def)
            with assms have fit: "length (fdata f) < 2 ^ 63" by (simp add: files_fit_def)
            have b: "take (unat (fend f)) (fdata f) = fread f (fend f)" by (simp add: fread_def)
            have "sent (handle_client e root_dir) =
                   wire \<lparr>resp_status = 200, resp_text = ''OK'', resp_type = get_content_type rp,
                         resp_body = fread f (fend f)\<rparr> @
                   (if send_ret e 1 (fread f (fend f)) = - 1
                    then error_response 500 ''Failed to send response body'' else [])"
              unfolding handle_client_served [OF r nd' Some pre l] served_head [OF l fit] b
              by (simp add: wire_def)
            with o show ?thesis by blast
          qed
        qed
      qed
    qed
  qed
qed

text \<open>
  Claim C5.  On a file system whose files are shorter than \<open>2^63\<close> bytes, what the
  handler hands to \<open>send\<close> is a sequence of responses (none, one, or a 200 followed by
  the 500 of a failed body \<open>send\<close>), each as two buffers: a head made of the status line,
  the \<open>Content-Type\<close> line, the \<open>Content-Length\<close> line with the decimal length of the
  body, and the empty line that ends the header block; then the body.  Status text and
  content type contain no line break.  The body of a 200 response is what \<open>fread\<close>
  delivered from an opened file.
\<close>

theorem responses_framed:
  assumes "files_fit e"
  shows "\<exists>rs. sent (handle_client e root_dir) = concat (map wire rs)
          \<and> (\<forall>r \<in> set rs. one_line (resp_text r) \<and> one_line (resp_type r)
                \<and> (resp_status r = 200 \<longrightarrow>
                     (\<exists>p f. fopen_of e p = Some f \<and> resp_body r = fread f (fend f))))"
proof -
  let ?err = "\<lambda>code message. \<lparr>resp_status = code, resp_text = reason_phrase code,
                 resp_type = ''application/json'', resp_body = error_body message\<rparr>"
  have j: "one_line ''application/json''" by (simp add: one_line_def)
  from handle_client_outcomes [OF assms, of root_dir]
  consider "sent (handle_client e root_dir) = []"
    | code message where "code \<noteq> 200"
        "sent (handle_client e root_dir) = error_response code message"
    | rp f where "fopen_of e rp = Some f"
        "sent (handle_client e root_dir) =
             wire \<lparr>resp_status = 200, resp_text = ''OK'', resp_type = get_content_type rp,
                   resp_body = fread f (fend f)\<rparr> @
             (if send_ret e 1 (fread f (fend f)) = - 1
              then error_response 500 ''Failed to send response body'' else [])"
    by blast
  then show ?thesis
  proof cases
    case 1
    then show ?thesis by (intro exI [of _ "[]"]) simp
  next
    case 2
    then show ?thesis
      by (intro exI [of _ "[?err code message]"]) (simp add: wire_error one_line_reason_phrase j)
  next
    case 3
    let ?ok = "\<lparr>resp_status = 200, resp_text = ''OK'', resp_type = get_content_type rp,
                   resp_body = fread f (fend f)\<rparr>"
    have k: "one_line ''OK''" by (simp add: one_line_def)
    show ?thesis
    proof (cases "send_ret e 1 (fread f (fend f)) = - 1")
      case True
      with 3 show ?thesis
        by (intro exI [of _ "[?ok, ?err 500 ''Failed to send response body'']"])
          (auto simp: wire_error one_line_reason_phrase j k one_line_get_content_type)
    next
      case False
      with 3 show ?thesis
        by (intro exI [of _ "[?ok]"])
          (auto simp: one_line_reason_phrase j k one_line_get_content_type)
    qed
  qed
qed

theorem responses_framed_witness:
  "\<exists>rs. sent (handle_client (www_send body_send_fails (''GET / HTTP/1.0'' @ CRLF @ CRLF)) ''/var/www'') =
           concat (map wire rs)
          \<and> (\<forall>r \<in> set rs. one_line (resp_text r) \<and> one_line (resp_type r)
                \<and> (resp_status r = 200 \<longrightarrow>
                     (\<exists>p f. fopen_of (www_send body_send_fails (''GET / HTTP/1.0'' @ CRLF @ CRLF)) p = Some f
                         \<and> resp_body r = fread f (fend f))))"
proof -
  have "files_fit (www_send body_send_fails (''GET / HTTP/1.0'' @ CRLF @ CRLF))"
    by (simp add: files_fit_def www_send_def www_def)
  then show ?thesis by (rule responses_framed)
qed

subsection \<open>Tokens longer than their field\<close>

lemma takeWhile_dropWhile_Nil: "takeWhile P (dropWhile P xs) = []"
  by (induction xs) auto

lemma scan_s_long:
  assumes "ws_tokens s = t # ts" and "w < length t"
  shows "\<exists>r. scan_s w s = Some (take w t, r) \<and> ws_tokens r = drop w t # ts"
proof -
  let ?n = "\<lambda>c. \<not> isspace c"
  let ?s1 = "dropWhile isspace s"
  let ?rest = "dropWhile ?n ?s1"
  let ?d = "drop w t"
  from assms(1) have ne: "?s1 \<noteq> []"
    and t: "t = takeWhile ?n ?s1"
    and ts: "ts = ws_tokens ?rest"
    by (subst (asm) ws_tokens.simps, simp split: if_splits)+
  have s1: "?s1 = t @ ?rest" unfolding t by simp
  have nsp: "\<And>x. x \<in> set t \<Longrightarrow> \<not> isspace x"
    unfolding t by (auto dest: set_takeWhileD)
  have dne: "?d \<noteq> []" using assms(2) by simp
  have dn: "\<And>x. x \<in> set ?d \<Longrightarrow> \<not> isspace x"
    using nsp by (auto dest: in_set_dropD)
  have "drop (length (take w t)) ?s1 = ?d @ ?rest"
    using assms(2) by (subst s1) (simp add: min_def)
  then have sc: "scan_s w s = Some (take w t, ?d @ ?rest)"
    using ne by (simp add: scan_s_def Let_def t [symmetric])
  obtain x xs where d: "?d = x # xs" using dne by (cases ?d) auto
  then have "\<not> isspace x" using dn by (metis list.set_intros(1))
  then have a: "dropWhile isspace (?d @ ?rest) = ?d @ ?rest" by (simp add: d)
  have b: "takeWhile ?n (?d @ ?rest) = ?d"
    using dn by (simp add: takeWhile_append2 takeWhile_dropWhile_Nil)
  have c: "dropWhile ?n (?d @ ?rest) = ?rest"
    using dn by (simp add: dropWhile_append2)
  have "?d @ ?rest \<noteq> []" using dne by simp
  then have "ws_tokens (?d @ ?rest) = ?d # ts"
    by (subst ws_tokens.simps) (simp only: a b c ts if_False)
  with sc show ?thesis by blast
qed

lemma scan_s_cut:
  assumes "ws_tokens s = t # ts" and "0 < w"
  shows "\<exists>r. scan_s w s = Some (take w t, r)"
proof (cases "length t \<le> w")
  case True
  from scan_s_fit [OF assms(1) True] show ?thesis using True by auto
next
  case False
  then have "w < length t" by simp
  from scan_s_long [OF assms(1) this] show ?thesis by blast
qed

text \<open>A request from which three fields were scanned is never answered with 400.\<close>

lemma parsed_not_malformed:
  assumes r: "request_of e = Some (m, t, p)"
  shows "sent (handle_client e root_dir) \<noteq> error_response 400 ''Malformed request''"
proof (cases "strstr (strip_query t) ''..'' = None")
  case False
  then have "sent (handle_client e root_dir) = error_response 403 ''Forbidden path traversal''"
    by (simp add: handle_client_parsed [OF r] close_def start_def send_error_eq)
  then show ?thesis by (simp add: response_403_traversal response_400 CRLF_def)
next
  case nd: True
  then have nd': "\<forall>a b. strip_query t \<noteq> a @ ''..'' @ b" by (simp add: strstr_None)
  show ?thesis
  proof (cases "m = ''GET''")
    case False
    with nd have "sent (handle_client e root_dir) = error_response 501 ''Only GET is supported''"
      by (simp add: handle_client_parsed [OF r] close_def start_def send_error_eq)
    then show ?thesis by (simp add: response_501 response_400 CRLF_def)
  next
    case True
    note r = r [unfolded True]
    show ?thesis
    proof (cases "realpath_of e (candidate root_dir t)")
      case None
      then have "sent (handle_client e root_dir) = error_response 404 ''File not found''"
        by (simp add: handle_client_not_found [OF r nd'])
      then show ?thesis by (simp add: response_404 response_400 CRLF_def)
    next
      case (Some rp)
      show ?thesis
      proof (cases "root_prefix e root_dir rp")
        case False
        then have "sent (handle_client e root_dir) = error_response 403 ''Forbidden path''"
          by (simp add: handle_client_outside_root [OF r nd' Some])
        then show ?thesis by (simp add: response_403_path response_400 CRLF_def)
      next
        case pre: True
        show ?thesis
        proof (cases "load_fails e rp")
          case True
          with pre Some have "sent (handle_client e root_dir) = error_response 404 ''File not found''"
            by (simp add: handle_client_not_found [OF r nd'])
          then show ?thesis by (simp add: response_404 response_400 CRLF_def)
        next
          case False
          then obtain f where l: "loads e rp f" using not_load_fails by blast
          have "hd (sent (handle_client e root_dir)) ! 9 = CHR ''2''"
            unfolding handle_client_served [OF r nd' Some pre l] by simp
          moreover have "hd (error_response 400 ''Malformed request'') ! 9 = CHR ''4''"
            by (simp add: response_400)
          ultimately show ?thesis by auto
        qed
      qed
    qed
  qed
qed

text \<open>
  Claim C10, as the code has it.  When the text of the received buffer starts with a token
  of at most 7 bytes followed by a token of more than 255 bytes, the scan stores three
  fields: the first token as the method, the first 255 bytes of the second token as the
  target, and as the protocol the next bytes of the same token, of which the field holds
  at most 15.  The request is not rejected as malformed: the handler does not answer
  400 \<open>Malformed request\<close> but goes on with the check for \<open>..\<close>, the check of the method,
  the resolution and the loading of the file, all on the truncated target, and it ends
  in the same state as for any request with this method and the truncated target.
\<close>

theorem long_target_truncated:
  assumes "incoming e = Some bytes"
    and "ws_tokens (received_text e) = m # tok # ts"
    and "length m \<le> 7" and "255 < length tok"
  shows "request_of e = Some (m, take 255 tok, take 15 (drop 255 tok))
     \<and> sent (handle_client e root_dir) \<noteq>
           [''HTTP/1.0 400 Bad Request'' @ CRLF @ ''Content-Type: application/json'' @ CRLF @
            ''Content-Length: 30'' @ CRLF @ CRLF,
            ''{\"error\": \"Malformed request\"}'']
     \<and> handle_client e root_dir =
          (if strstr (strip_query (take 255 tok)) ''..'' \<noteq> None
           then close (send_error e start 403 ''Forbidden path traversal'')
           else if m \<noteq> ''GET''
           then close (send_error e start 501 ''Only GET is supported'')
           else
             case realpath_of e (candidate root_dir (take 255 tok)) of
               None \<Rightarrow> close (send_error e start 404 ''File not found'')
             | Some real_requested_path \<Rightarrow>
                 let real_root = realpath_into e root_dir (uninitialised e)
                 in if \<not> strncmp_eq real_requested_path real_root (length real_root)
                    then close (send_error e start 403 ''Forbidden path'')
                    else
                      case read_file e start real_requested_path of
                        (None, s1) \<Rightarrow> close (send_error e s1 404 ''File not found'')
                      | (Some (body, file_size), s1) \<Rightarrow>
                          let content_type = get_content_type real_requested_path;
                              (header, header_len) =
                                 snprintf 512
                                   (''HTTP/1.0 200 OK'' @ CRLF @
                                    ''Content-Type: '' @ content_type @ CRLF @
                                    ''Content-Length: '' @ show_int (sint file_size) @ CRLF @
                                    CRLF);
                              (s2, _) = send e s1 (take (nat header_len) header);
                              (s3, sent_ret) = send e s2 (take (unat file_size) body);
                              s4 = (if sent_ret = - 1
                                    then send_error e s3 500 ''Failed to send response body''
                                    else s3)
                          in close (free s4))
     \<and> (\<forall>bytes' q. request_of (e\<lparr>incoming := Some bytes'\<rparr>) = Some (m, take 255 tok, q) \<longrightarrow>
            handle_client e root_dir = handle_client (e\<lparr>incoming := Some bytes'\<rparr>) root_dir)"
proof -
  let ?s = "c_str (take (MAXDATASIZE - 1) bytes)"
  have rt: "received_text e = ?s"
    using assms(1) by (simp add: received_text_def)
  have "?s \<noteq> []"
    using assms(2) unfolding rt by (subst (asm) ws_tokens.simps) (auto split: if_splits)
  then have ne: "bytes \<noteq> []" by (auto simp: c_str_def)
  from scan_s_fit [OF assms(2) assms(3)] obtain r1 where
    r1: "scan_s 7 (received_text e) = Some (m, r1)" "ws_tokens r1 = tok # ts" by blast
  from scan_s_long [OF r1(2) assms(4)] obtain r2 where
    r2: "scan_s 255 r1 = Some (take 255 tok, r2)" "ws_tokens r2 = drop 255 tok # ts" by blast
  from scan_s_cut [OF r2(2), of 15] obtain r3 where
    r3: "scan_s 15 r2 = Some (take 15 (drop 255 tok), r3)" by auto
  have "sscanf_request ?s = (3, m, take 255 tok, take 15 (drop 255 tok))"
    using r1(1) r2(1) r3 unfolding rt by (simp add: sscanf_request_def)
  then have req: "request_of e = Some (m, take 255 tok, take 15 (drop 255 tok))"
    using assms(1) ne by (simp add: request_of_def)
  have not400: "sent (handle_client e root_dir) \<noteq>
           [''HTTP/1.0 400 Bad Request'' @ CRLF @ ''Content-Type: application/json'' @ CRLF @
            ''Content-Length: 30'' @ CRLF @ CRLF,
            ''{\"error\": \"Malformed request\"}'']"
    using parsed_not_malformed [OF req, of root_dir] unfolding response_400 .
  have same: "handle_client e root_dir = handle_client (e\<lparr>incoming := Some bytes'\<rparr>) root_dir"
    if "request_of (e\<lparr>incoming := Some bytes'\<rparr>) = Some (m, take 255 tok, q)" for bytes' q
    using handle_client_same_request [OF req that] by simp
  show ?thesis
    apply (intro conjI)
       apply (rule req)
      apply (rule not400)
     apply (rule handle_client_parsed [OF req])
    using same apply blast
    done
qed

theorem long_target_truncated_witness:
  "incoming (www (''GET '' @ long_target @ '' HTTP/1.0'' @ CRLF @ CRLF)) =
     Some (''GET '' @ long_target @ '' HTTP/1.0'' @ CRLF @ CRLF)
   \<and> ws_tokens (received_text (www (''GET '' @ long_target @ '' HTTP/1.0'' @ CRLF @ CRLF))) =
       ''GET'' # long_target # [''HTTP/1.0'']
   \<and> length ''GET'' \<le> 7 \<and> 255 < length long_target
   \<and> request_of (www (''GET '' @ long_target @ '' HTTP/1.0'' @ CRLF @ CRLF)) =
       Some (''GET'', take 255 long_target, take 15 (drop 255 long_target))
   \<and> sent (handle_client (www (''GET '' @ long_target @ '' HTTP/1.0'' @ CRLF @ CRLF)) ''/var/www'') \<noteq>
           [''HTTP/1.0 400 Bad Request'' @ CRLF @ ''Content-Type: application/json'' @ CRLF @
            ''Content-Length: 30'' @ CRLF @ CRLF,
            ''{\"error\": \"Malformed request\"}'']
   \<and> realpath_of (www (''GET '' @ long_target @ '' HTTP/1.0'' @ CRLF @ CRLF))
         (candidate ''/var/www'' (take 255 long_target)) = None
   \<and> handle_client (www (''GET '' @ long_target @ '' HTTP/1.0'' @ CRLF @ CRLF)) ''/var/www'' =
         \<lparr>sent = [''HTTP/1.0 404 Not Found'' @ CRLF @ ''Content-Type: application/json'' @ CRLF @
                   ''Content-Length: 27'' @ CRLF @ CRLF,
                  ''{\"error\": \"File not found\"}''],
          closed = True, allocated = 0\<rparr>
   \<and> request_of ((www (''GET '' @ long_target @ '' HTTP/1.0'' @ CRLF @ CRLF))
         \<lparr>incoming := Some (''GET '' @ take 255 long_target @ '' HTTP/1.0'' @ CRLF @ CRLF)\<rparr>) =
       Some (''GET'', take 255 long_target, ''HTTP/1.0'')
   \<and> handle_client (www (''GET '' @ long_target @ '' HTTP/1.0'' @ CRLF @ CRLF)) ''/var/www'' =
       handle_client ((www (''GET '' @ long_target @ '' HTTP/1.0'' @ CRLF @ CRLF))
         \<lparr>incoming := Some (''GET '' @ take 255 long_target @ '' HTTP/1.0'' @ CRLF @ CRLF)\<rparr>) ''/var/www''"
proof -
  let ?e = "www (''GET '' @ long_target @ '' HTTP/1.0'' @ CRLF @ CRLF)"
  have i: "incoming ?e = Some (''GET '' @ long_target @ '' HTTP/1.0'' @ CRLF @ CRLF)"
    by (simp add: www_def)
  have t: "ws_tokens (received_text ?e) = ''GET'' # long_target # [''HTTP/1.0'']" by code_simp
  have m: "length ''GET'' \<le> 7" by simp
  have l: "255 < length long_target" by (simp add: long_target_def)
  have p: "realpath_of ?e (candidate ''/var/www'' (take 255 long_target)) = None" by code_simp
  have v: "handle_client ?e ''/var/www'' =
         \<lparr>sent = [''HTTP/1.0 404 Not Found'' @ CRLF @ ''Content-Type: application/json'' @ CRLF @
                   ''Content-Length: 27'' @ CRLF @ CRLF,
                  ''{\"error\": \"File not found\"}''],
          closed = True, allocated = 0\<rparr>"
    by code_simp
  have q: "request_of (?e\<lparr>incoming := Some (''GET '' @ take 255 long_target @ '' HTTP/1.0'' @ CRLF @ CRLF)\<rparr>) =
       Some (''GET'', take 255 long_target, ''HTTP/1.0'')"
    by code_simp
  note th = long_target_truncated [OF i t m l, of "''/var/www''"]
  from th have a: "request_of ?e = Some (''GET'', take 255 long_target, take 15 (drop 255 long_target))"
    by (rule conjunct1)
  from th have b: "sent (handle_client ?e ''/var/www'') \<noteq>
           [''HTTP/1.0 400 Bad Request'' @ CRLF @ ''Content-Type: application/json'' @ CRLF @
            ''Content-Length: 30'' @ CRLF @ CRLF,
            ''{\"error\": \"Malformed request\"}'']"
    by (rule conjunct2 [THEN conjunct1])
  from th q have c: "handle_client ?e ''/var/www'' =
       handle_client (?e\<lparr>incoming := Some (''GET '' @ take 255 long_target @ '' HTTP/1.0'' @ CRLF @ CRLF)\<rparr>) ''/var/www''"
    by blast
  from i t m l a b p v q c show ?thesis by (intro conjI)
qed

text \<open>
  Claim C10 as stated fails.  Of the 45 bytes that remain of a target of 300 bytes, 15
  become the protocol; the other 30 are not read.  When the first token is longer than 7
  bytes, the target is the rest of the first token and not the start of the second.
\<close>

theorem long_target_protocol_cut:
  "ws_tokens (first_line (''GET '' @ long_target @ '' HTTP/1.0'' @ CRLF @ CRLF)) =
     [''GET'', long_target, ''HTTP/1.0'']
   \<and> length long_target = 300
   \<and> request_of (www (''GET '' @ long_target @ '' HTTP/1.0'' @ CRLF @ CRLF)) =
       Some (''GET'', take 255 long_target, take 15 (drop 255 long_target))
   \<and> length (drop 255 long_target) = 45
   \<and> length (take 15 (drop 255 long_target)) = 15
   \<and> ws_tokens (first_line (''OPTIONS_ '' @ long_target @ '' HTTP/1.0'' @ CRLF @ CRLF)) =
     [''OPTIONS_'', long_target, ''HTTP/1.0'']
   \<and> request_of (www (''OPTIONS_ '' @ long_target @ '' HTTP/1.0'' @ CRLF @ CRLF)) =
       Some (''OPTIONS'', ''_'', take 15 long_target)"
  by code_simp

end
